theory Spec2Isabelle
  imports Complex_Main "HOL-Library.AList"
begin

section \<open>Python numbers and floating-point rounding\<close>

text \<open>
  A setpoint is a Python number: an \<open>int\<close> (the presets of the repository, and what JSON
  gives for a whole number) or a \<open>float\<close>. The two behave differently where the code
  computes with them and where it builds tensors from them, so the model keeps them
  apart. A \<open>float\<close> is an IEEE 754 binary64 value and is modelled by the real number it
  denotes; the elements of a \<open>float32\<close> tensor are binary32 values, modelled the same
  way. Infinities and NaN are not values of the model: the positions are finite, and of a
  magnitude at which no operation overflows (the theorems that depend on it say so).
\<close>

datatype py_num = PyInt int | PyFloat real

fun py_val :: "py_num \<Rightarrow> real" where
  "py_val (PyInt n) = of_int n"
| "py_val (PyFloat x) = x"

text \<open>
  Rounding to nearest, ties to even. \<open>fp_round p emin\<close> rounds a real to the format with
  \<open>p\<close> significand bits whose normal numbers start at \<open>2 powi emin\<close>: a number in the
  binade \<open>[2 powi e, 2 powi (e + 1))\<close> is rounded to a multiple of
  \<open>2 powi (e - p + 1)\<close>, and below \<open>2 powi emin\<close> the spacing stays that of the
  lowest binade (the subnormal numbers). binary64 has 53 bits and least exponent -1022,
  binary32 has 24 bits and least exponent -126.
\<close>

definition round_half_even :: "real \<Rightarrow> int" where
  "round_half_even y =
     (let f = \<lfloor>y\<rfloor>; r = y - of_int f
      in if r < 1 / 2 then f else if 1 / 2 < r then f + 1 else if even f then f else f + 1)"

definition fp_exponent :: "int \<Rightarrow> real \<Rightarrow> int" where
  "fp_exponent emin x = max \<lfloor>log 2 \<bar>x\<bar>\<rfloor> emin"

definition fp_round :: "nat \<Rightarrow> int \<Rightarrow> real \<Rightarrow> real" where
  "fp_round p emin x =
     (if x = 0 then 0
      else (let q = 2 powi (fp_exponent emin x - int p + 1)
            in of_int (round_half_even (x / q)) * q))"

definition round_binary64 :: "real \<Rightarrow> real" where
  "round_binary64 = fp_round 53 (- 1022)"

definition round_binary32 :: "real \<Rightarrow> real" where
  "round_binary32 = fp_round 24 (- 126)"

text \<open>
  Python's arithmetic on numbers. \<open>float(x)\<close> of an \<open>int\<close> is the nearest binary64
  value. A sum, difference or product of two \<open>int\<close>s is an \<open>int\<close>, computed exactly;
  otherwise both operands are taken as floats and the result is rounded once.
\<close>

fun py_float :: "py_num \<Rightarrow> real" where
  "py_float (PyInt n) = round_binary64 (of_int n)"
| "py_float (PyFloat x) = x"

fun py_add :: "py_num \<Rightarrow> py_num \<Rightarrow> py_num" where
  "py_add (PyInt m) (PyInt n) = PyInt (m + n)"
| "py_add (PyInt m) (PyFloat y) = PyFloat (round_binary64 (py_float (PyInt m) + y))"
| "py_add (PyFloat x) b = PyFloat (round_binary64 (x + py_float b))"

fun py_sub :: "py_num \<Rightarrow> py_num \<Rightarrow> py_num" where
  "py_sub (PyInt m) (PyInt n) = PyInt (m - n)"
| "py_sub (PyInt m) (PyFloat y) = PyFloat (round_binary64 (py_float (PyInt m) - y))"
| "py_sub (PyFloat x) b = PyFloat (round_binary64 (x - py_float b))"

fun py_mul :: "py_num \<Rightarrow> py_num \<Rightarrow> py_num" where
  "py_mul (PyInt m) (PyInt n) = PyInt (m * n)"
| "py_mul (PyInt m) (PyFloat y) = PyFloat (round_binary64 (py_float (PyInt m) * y))"
| "py_mul (PyFloat x) b = PyFloat (round_binary64 (x * py_float b))"

section \<open>Positions and the helpers of \<open>robot_utils.py\<close>\<close>

text \<open>
  A position is a Python \<open>dict\<close> from joint name to setpoint. It is modelled as an
  association list in insertion order; a key is looked up with \<open>map_of\<close>. Two
  dictionaries are equal in Python when they have the same keys and, at each key, values
  that are equal as numbers (\<open>0 == 0.0\<close>). The entries of the limit table are only
  ever compared with a setpoint, which Python does exactly, so they are kept as the
  numbers they denote.
\<close>

type_synonym position = "(string \<times> py_num) list"

type_synonym limits = "(string \<times> (real \<times> real)) list"

datatype py_error = ZeroDivisionError | RuntimeError | DeviceError | NameError

text \<open>
  \<open>check_position_safety\<close>: the loop over \<open>positions.items()\<close> returns \<open>False\<close> at the
  first joint that has an entry in \<open>limits\<close> and lies outside it; joints without an entry
  are skipped.
\<close>

fun check_position_safety :: "position \<Rightarrow> limits \<Rightarrow> bool" where
  "check_position_safety [] limits = True"
| "check_position_safety ((joint, pos) # rest) limits =
     (case map_of limits joint of
        Some (min_pos, max_pos) \<Rightarrow>
          (if \<not> (min_pos \<le> py_val pos \<and> py_val pos \<le> max_pos) then False
           else check_position_safety rest limits)
      | None \<Rightarrow> check_position_safety rest limits)"

text \<open>\<open>get_so101_joint_limits\<close> and \<open>create_default_positions\<close>, as the source lists them.\<close>

definition get_so101_joint_limits :: limits where
  "get_so101_joint_limits =
     [(''shoulder_pan'', (-2048, 2048)),
      (''shoulder_lift'', (-2048, 2048)),
      (''elbow_flex'', (-2048, 2048)),
      (''wrist_flex'', (-2048, 2048)),
      (''wrist_roll'', (-2048, 2048)),
      (''gripper'', (0, 1024))]"

definition create_default_positions :: "(string \<times> position) list" where
  "create_default_positions =
     [(''rest'', [(''shoulder_pan'', PyInt 0), (''shoulder_lift'', PyInt (-1024)),
                  (''elbow_flex'', PyInt 1024), (''wrist_flex'', PyInt 0),
                  (''wrist_roll'', PyInt 0)]),
      (''V'', [(''shoulder_pan'', PyInt 0), (''shoulder_lift'', PyInt (-1024)),
               (''elbow_flex'', PyInt 2048), (''wrist_flex'', PyInt (-1024)),
               (''wrist_roll'', PyInt 0)]),
      (''tracking'', [(''shoulder_pan'', PyInt 0), (''shoulder_lift'', PyInt (-512)),
                      (''elbow_flex'', PyInt 1536), (''wrist_flex'', PyInt (-512)),
                      (''wrist_roll'', PyInt 0)]),
      (''vertical'', [(''shoulder_pan'', PyInt 0), (''shoulder_lift'', PyInt 0),
                      (''elbow_flex'', PyInt (-1024)), (''wrist_flex'', PyInt 1024),
                      (''wrist_roll'', PyInt 0)])]"

text \<open>
  \<open>interpolate_positions\<close>. The outer loop runs over \<open>range(steps + 1)\<close>, which is empty
  for a negative \<open>steps\<close>; its first statement is the true division \<open>step / steps\<close>,
  which raises \<open>ZeroDivisionError\<close> when \<open>steps\<close> is zero and otherwise gives the float
  nearest to the quotient. The inner loop runs over the joints of \<open>start_pos\<close>: a joint
  that \<open>end_pos\<close> has is set to \<open>start + t * (end - start)\<close>, evaluated in Python's
  arithmetic, a joint that it lacks keeps its start value, and a joint that only
  \<open>end_pos\<close> has is never visited.
\<close>

definition true_div :: "int \<Rightarrow> int \<Rightarrow> py_error + real" where
  "true_div a b =
     (if b = 0 then Inl ZeroDivisionError
      else Inr (round_binary64 (real_of_int a / real_of_int b)))"

definition interpolate_at :: "position \<Rightarrow> position \<Rightarrow> real \<Rightarrow> position" where
  "interpolate_at start_pos end_pos t =
     map (\<lambda>(joint, s).
            (joint, case map_of end_pos joint of
                      Some e \<Rightarrow> py_add s (py_mul (PyFloat t) (py_sub e s))
                    | None \<Rightarrow> s))
         start_pos"

fun interpolate_loop ::
  "position \<Rightarrow> position \<Rightarrow> int \<Rightarrow> int list \<Rightarrow> position list \<Rightarrow> py_error + position list" where
  "interpolate_loop start_pos end_pos steps [] interpolated = Inr interpolated"
| "interpolate_loop start_pos end_pos steps (step # rest) interpolated =
     (case true_div step steps of
        Inl err \<Rightarrow> Inl err
      | Inr t \<Rightarrow>
          interpolate_loop start_pos end_pos steps rest
            (interpolated @ [interpolate_at start_pos end_pos t]))"

definition interpolate_positions :: "position \<Rightarrow> position \<Rightarrow> int \<Rightarrow> py_error + position list" where
  "interpolate_positions start_pos end_pos steps =
     interpolate_loop start_pos end_pos steps [0..steps] []"

section \<open>Tensors\<close>

text \<open>
  The adapter passes setpoints as tensors of the \<open>torch\<close> library, which is not part of
  the repository. What the code uses of it is modelled here from the library's
  documented behaviour. A tensor is the list of its elements together with its dtype,
  \<open>int64\<close> or \<open>float32\<close> (the default float dtype); the tensors of this code have one
  dimension or none, and a tensor of no dimension is the list of its one element.

  \<open>torch.tensor\<close> of Python numbers gives an \<open>int64\<close> tensor when all of them are
  \<open>int\<close>s, which raises when one of them is out of the range of \<open>int64\<close>, and a
  \<open>float32\<close> tensor otherwise, each number rounded to binary32.
\<close>

datatype tensor = IntTensor "int list" | FloatTensor "real list"

type_synonym tensor_dict = "(string \<times> tensor) list"

fun is_py_int :: "py_num \<Rightarrow> bool" where
  "is_py_int (PyInt n) = True"
| "is_py_int (PyFloat x) = False"

fun py_int_of :: "py_num \<Rightarrow> int" where
  "py_int_of (PyInt n) = n"
| "py_int_of (PyFloat x) = \<lfloor>x\<rfloor>"

definition in_int64 :: "int \<Rightarrow> bool" where
  "in_int64 n \<longleftrightarrow> - (2 ^ 63) \<le> n \<and> n < 2 ^ 63"

definition wrap_int64 :: "int \<Rightarrow> int" where
  "wrap_int64 n = (n + 2 ^ 63) mod 2 ^ 64 - 2 ^ 63"

definition torch_tensor :: "py_num list \<Rightarrow> py_error + tensor" where
  "torch_tensor xs =
     (if list_all is_py_int xs
      then (if list_all (\<lambda>x. in_int64 (py_int_of x)) xs
            then Inr (IntTensor (map py_int_of xs)) else Inl RuntimeError)
      else Inr (FloatTensor (map (\<lambda>x. round_binary32 (py_float x)) xs)))"

text \<open>
  \<open>tensor.item()\<close> is the one element of the tensor as a Python number, and raises for
  a tensor with another number of elements.
\<close>

fun tensor_item :: "tensor \<Rightarrow> py_error + py_num" where
  "tensor_item (IntTensor [n]) = Inr (PyInt n)"
| "tensor_item (FloatTensor [x]) = Inr (PyFloat x)"
| "tensor_item t = Inl RuntimeError"

text \<open>
  The elementwise operations. Two shapes are broadcast when they are equal or one of
  them has one element. Two \<open>int64\<close> operands give an \<open>int64\<close> result, computed modulo
  \<open>2 ^ 64\<close>; otherwise the result is \<open>float32\<close>, an \<open>int64\<close> operand being converted
  first, and a difference or a sum is rounded to binary32 (a minimum, a maximum and a
  negation are exact).
\<close>

definition bind_err :: "'e + 'a \<Rightarrow> ('a \<Rightarrow> 'e + 'b) \<Rightarrow> 'e + 'b" where
  "bind_err x f = (case x of Inl e \<Rightarrow> Inl e | Inr v \<Rightarrow> f v)"

definition broadcast :: "('a \<Rightarrow> 'a \<Rightarrow> 'b) \<Rightarrow> 'a list \<Rightarrow> 'a list \<Rightarrow> py_error + 'b list" where
  "broadcast f xs ys =
     (if length xs = length ys then Inr (map (\<lambda>(x, y). f x y) (zip xs ys))
      else if length xs = 1 then Inr (map (f (hd xs)) ys)
      else if length ys = 1 then Inr (map (\<lambda>x. f x (hd ys)) xs)
      else Inl RuntimeError)"

fun tensor_values :: "tensor \<Rightarrow> real list" where
  "tensor_values (IntTensor ns) = map (\<lambda>n. round_binary32 (of_int n)) ns"
| "tensor_values (FloatTensor xs) = xs"

fun tensor_op ::
  "(int \<Rightarrow> int \<Rightarrow> int) \<Rightarrow> (real \<Rightarrow> real \<Rightarrow> real) \<Rightarrow> tensor \<Rightarrow> tensor \<Rightarrow> py_error + tensor" where
  "tensor_op fi ff (IntTensor ms) (IntTensor ns) =
     bind_err (broadcast fi ms ns) (\<lambda>r. Inr (IntTensor r))"
| "tensor_op fi ff (IntTensor ms) (FloatTensor ys) =
     bind_err (broadcast ff (tensor_values (IntTensor ms)) ys) (\<lambda>r. Inr (FloatTensor r))"
| "tensor_op fi ff (FloatTensor xs) b =
     bind_err (broadcast ff xs (tensor_values b)) (\<lambda>r. Inr (FloatTensor r))"

definition tensor_sub :: "tensor \<Rightarrow> tensor \<Rightarrow> py_error + tensor" where
  "tensor_sub = tensor_op (\<lambda>m n. wrap_int64 (m - n)) (\<lambda>x y. round_binary32 (x - y))"

definition tensor_add :: "tensor \<Rightarrow> tensor \<Rightarrow> py_error + tensor" where
  "tensor_add = tensor_op (\<lambda>m n. wrap_int64 (m + n)) (\<lambda>x y. round_binary32 (x + y))"

definition tensor_minimum :: "tensor \<Rightarrow> tensor \<Rightarrow> py_error + tensor" where
  "tensor_minimum = tensor_op min min"

definition tensor_maximum :: "tensor \<Rightarrow> tensor \<Rightarrow> py_error + tensor" where
  "tensor_maximum = tensor_op max max"

fun tensor_neg :: "tensor \<Rightarrow> tensor" where
  "tensor_neg (IntTensor ns) = IntTensor (map (\<lambda>n. wrap_int64 (- n)) ns)"
| "tensor_neg (FloatTensor xs) = FloatTensor (map uminus xs)"

text \<open>
  \<open>torch.allclose(input, other)\<close> with its default tolerances \<open>rtol = 1e-05\<close> and
  \<open>atol = 1e-08\<close>: it raises when the two dtypes differ; otherwise every pair of
  elements has to be equal or to satisfy \<open>|input - other| \<le> atol + rtol * |other|\<close>,
  which is evaluated in binary32 (\<open>int64\<close> elements being converted first).
\<close>

definition isclose32 :: "real \<Rightarrow> real \<Rightarrow> bool" where
  "isclose32 x y \<longleftrightarrow>
     x = y \<or>
     \<bar>round_binary32 (x - y)\<bar> \<le>
       round_binary32 (round_binary32 (1 / 10 ^ 8) + \<bar>round_binary32 (round_binary32 (1 / 10 ^ 5) * y)\<bar>)"

fun allclose :: "tensor \<Rightarrow> tensor \<Rightarrow> py_error + bool" where
  "allclose (IntTensor ms) (IntTensor ns) =
     bind_err (broadcast (\<lambda>m n. m = n \<or> isclose32 (round_binary32 (of_int m))
                                                   (round_binary32 (of_int n))) ms ns)
       (\<lambda>bs. Inr (list_all id bs))"
| "allclose (FloatTensor xs) (FloatTensor ys) =
     bind_err (broadcast isclose32 xs ys) (\<lambda>bs. Inr (list_all id bs))"
| "allclose (IntTensor ms) (FloatTensor ys) = Inl RuntimeError"
| "allclose (FloatTensor xs) (IntTensor ns) = Inl RuntimeError"

section \<open>The safety clamp and the device adapter of \<open>manipulator.py\<close>\<close>

text \<open>
  \<open>ensure_safe_goal_position\<close>, statement by statement. \<open>max_relative_target\<close> is a
  number or a list of numbers. The function returns the clamped goal; the second component
  of the model's result records whether the warning was logged. An exception of the
  tensor library leaves the function.
\<close>

definition max_relative_tensor :: "py_num + py_num list \<Rightarrow> py_error + tensor" where
  "max_relative_tensor max_relative_target =
     (case max_relative_target of Inl m \<Rightarrow> torch_tensor [m] | Inr ms \<Rightarrow> torch_tensor ms)"

definition ensure_safe_goal_position ::
  "tensor \<Rightarrow> tensor \<Rightarrow> py_num + py_num list \<Rightarrow> py_error + tensor \<times> bool" where
  "ensure_safe_goal_position goal_pos present_pos max_relative_target =
     bind_err (tensor_sub goal_pos present_pos) (\<lambda>diff.
     bind_err (max_relative_tensor max_relative_target) (\<lambda>max_t.
     bind_err (tensor_minimum diff max_t) (\<lambda>safe_diff.
     bind_err (tensor_maximum safe_diff (tensor_neg max_t)) (\<lambda>safe_diff.
     bind_err (tensor_add present_pos safe_diff) (\<lambda>safe_goal_pos.
     bind_err (allclose goal_pos safe_goal_pos) (\<lambda>close.
     Inr (safe_goal_pos, \<not> close)))))))"

text \<open>
  The clamping loop of \<open>write_position\<close>: every motor of the goal that the present
  position also has is clamped, every other motor is passed through. The result is the
  dictionary \<open>safe_position\<close> together with whether any call logged the warning; an
  exception of a call leaves the loop.
\<close>

fun safe_position ::
  "tensor_dict \<Rightarrow> tensor_dict \<Rightarrow> py_num + py_num list \<Rightarrow> py_error + tensor_dict \<times> bool" where
  "safe_position [] current_pos M = Inr ([], False)"
| "safe_position ((motor_name, target_pos) # rest) current_pos M =
     (case map_of current_pos motor_name of
        Some current \<Rightarrow>
          bind_err (ensure_safe_goal_position target_pos current M) (\<lambda>(safe_pos, warned).
          bind_err (safe_position rest current_pos M) (\<lambda>(rest_safe, rest_warned).
          Inr ((motor_name, safe_pos) # rest_safe, warned \<or> rest_warned)))
      | None \<Rightarrow>
          bind_err (safe_position rest current_pos M) (\<lambda>(rest_safe, rest_warned).
          Inr ((motor_name, target_pos) # rest_safe, rest_warned)))"

text \<open>
  The driver library and the devices behind it are outside the repository. They are a
  parameter of the model: whether the driver modules import, whether building the motor
  buses and the cameras returns or raises, and, for the \<open>n\<close>-th transaction on the
  follower bus, what a read of \<open>Present_Position\<close> returns (\<open>None\<close>: it raises) and
  whether a write of \<open>Goal_Position\<close> returns (\<open>False\<close>: it raises).
\<close>

record hardware =
  driver_present :: bool
  bus_setup_ok :: bool
  camera_setup_ok :: bool
  read_reply :: "nat \<Rightarrow> tensor_dict option"
  write_ok :: "nat \<Rightarrow> bool"

text \<open>The configuration, with the fields the adapter reads.\<close>

record manipulator_config =
  follower_arms_config :: "(string \<times> string list) list"
  leader_arms_config :: "(string \<times> string list) list"
  cameras_config :: "string list"
  max_relative_target :: "(py_num + py_num list) option"
  mock :: bool

definition DEFAULT_SO101_MOTORS :: "string list" where
  "DEFAULT_SO101_MOTORS =
     [''shoulder_pan'', ''shoulder_lift'', ''elbow_flex'', ''wrist_flex'', ''wrist_roll'',
      ''gripper'']"

definition create_so101_motors_config :: "bool \<Rightarrow> string list" where
  "create_so101_motors_config include_gripper =
     (if \<not> include_gripper then filter (\<lambda>m. m \<noteq> ''gripper'') DEFAULT_SO101_MOTORS
      else DEFAULT_SO101_MOTORS)"

definition create_projecto_follower_only_config :: "bool \<Rightarrow> bool \<Rightarrow> manipulator_config" where
  "create_projecto_follower_only_config include_gripper mock_arg =
     \<lparr>follower_arms_config = [(''main'', create_so101_motors_config include_gripper)],
      leader_arms_config = [],
      cameras_config = [''main''],
      max_relative_target = None,
      mock = mock_arg\<rparr>"

text \<open>
  The adapter \<open>ManipulatorRobot\<close>. Its methods carry the prefix \<open>robot_\<close> where the
  interface class has a method of the same name. \<open>io_log\<close> is instrumentation: it
  records every entry into \<open>read_position\<close> and \<open>write_position\<close> that passes the
  connection check, so that "no adapter I/O" is a statement about the state.
  \<open>bus_calls\<close> counts the transactions on the real bus and \<open>bus_written\<close> lists the
  goals the bus accepted. The simulated positions are Python floats.
\<close>

datatype io_call = ReadPosition | WritePosition tensor_dict

record manipulator =
  config :: manipulator_config
  robot_is_connected :: bool
  mock_mode :: bool
  leader_arms :: "string list"
  follower_arms :: "string list"
  cameras :: "string list"
  mock_positions :: "(string \<times> (string \<times> real) list) list"
  hw :: hardware
  bus_calls :: nat
  bus_written :: "tensor_dict list"
  io_log :: "io_call list"

definition ManipulatorRobot_init :: "manipulator_config \<Rightarrow> hardware \<Rightarrow> manipulator" where
  "ManipulatorRobot_init cfg world =
     \<lparr>config = cfg, robot_is_connected = False, mock_mode = mock cfg,
      leader_arms = [], follower_arms = [], cameras = [],
      mock_positions = [], hw = world, bus_calls = 0, bus_written = [], io_log = []\<rparr>"

definition connect_mock_devices :: "manipulator \<Rightarrow> manipulator" where
  "connect_mock_devices r =
     r\<lparr>mock_positions :=
         fold (\<lambda>(arm_name, motors) mp. AList.update arm_name (map (\<lambda>m. (m, 0)) motors) mp)
              (follower_arms_config (config r)) (mock_positions r)\<rparr>"

text \<open>
  \<open>_connect_real_devices\<close>: only the \<open>ImportError\<close> of a missing driver is caught, and
  it switches the adapter to mock mode; any other exception leaves the method. The result
  is the exception, if one was raised, and the state reached.
\<close>

definition connect_real_devices :: "manipulator \<Rightarrow> py_error option \<times> manipulator" where
  "connect_real_devices r =
     (if \<not> driver_present (hw r) then (None, connect_mock_devices (r\<lparr>mock_mode := True\<rparr>))
      else if follower_arms_config (config r) \<noteq> [] \<and> \<not> bus_setup_ok (hw r)
        then (Some DeviceError, r)
      else
        (let r1 = (if follower_arms_config (config r) \<noteq> []
                   then r\<lparr>follower_arms := map fst (follower_arms_config (config r))\<rparr> else r)
         in if leader_arms_config (config r1) \<noteq> [] \<and> \<not> bus_setup_ok (hw r1)
              then (Some DeviceError, r1)
            else
              (let r2 = (if leader_arms_config (config r1) \<noteq> []
                         then r1\<lparr>leader_arms := map fst (leader_arms_config (config r1))\<rparr>
                         else r1)
               in if cameras_config (config r2) \<noteq> [] \<and> \<not> camera_setup_ok (hw r2)
                    then (Some DeviceError, r2)
                  else if cameras_config (config r2) \<noteq> []
                    then (None, r2\<lparr>cameras := cameras_config (config r2)\<rparr>)
                  else (None, r2))))"

text \<open>\<open>connect\<close> of the adapter: every exception of the body is caught and gives \<open>False\<close>.\<close>

definition robot_connect :: "manipulator \<Rightarrow> bool \<times> manipulator" where
  "robot_connect r =
     (if robot_is_connected r then (True, r)
      else if mock_mode r then (True, (connect_mock_devices r)\<lparr>robot_is_connected := True\<rparr>)
      else (case connect_real_devices r of
              (None, r1) \<Rightarrow> (True, r1\<lparr>robot_is_connected := True\<rparr>)
            | (Some e, r1) \<Rightarrow> (False, r1)))"

definition is_mock :: "manipulator \<Rightarrow> bool" where
  "is_mock r = mock_mode r"

text \<open>
  Reading. The simulated position is handed out as one \<open>float32\<close> tensor per motor,
  built with \<open>torch.tensor([pos])\<close>. A read of the real bus returns what the bus
  returns; an exception of the bus is caught and gives the empty dictionary.
\<close>

definition read_mock_position :: "manipulator \<Rightarrow> tensor_dict" where
  "read_mock_position r =
     (case follower_arms_config (config r) of
        [] \<Rightarrow> []
      | (arm_name, motors) # others \<Rightarrow>
          (case map_of (mock_positions r) arm_name of
             None \<Rightarrow> []
           | Some positions \<Rightarrow>
               map (\<lambda>(name, pos). (name, FloatTensor [round_binary32 pos])) positions))"

definition read_real_position :: "manipulator \<Rightarrow> tensor_dict \<times> manipulator" where
  "read_real_position r =
     (if follower_arms r \<noteq> [] then
        (case read_reply (hw r) (bus_calls r) of
           Some positions \<Rightarrow> (positions, r\<lparr>bus_calls := Suc (bus_calls r)\<rparr>)
         | None \<Rightarrow> ([], r\<lparr>bus_calls := Suc (bus_calls r)\<rparr>))
      else ([], r))"

definition read_position :: "manipulator \<Rightarrow> (py_error + tensor_dict) \<times> manipulator" where
  "read_position r =
     (if \<not> robot_is_connected r then (Inl RuntimeError, r)
      else
        (let r0 = r\<lparr>io_log := io_log r @ [ReadPosition]\<rparr>
         in if mock_mode r0 then (Inr (read_mock_position r0), r0)
            else (case read_real_position r0 of (positions, r1) \<Rightarrow> (Inr positions, r1))))"

text \<open>
  Writing. \<open>_write_mock_position\<close> stores \<open>float(pos.item())\<close> motor by motor; it has
  no handler, so the exception of \<open>item()\<close> on a tensor of several elements leaves the
  method with the motors before it already stored. \<open>_write_real_position\<close> catches the
  exceptions of the bus and returns \<open>False\<close>.
\<close>

fun write_mock_loop ::
  "(string \<times> real) list \<Rightarrow> tensor_dict \<Rightarrow> py_error option \<times> (string \<times> real) list" where
  "write_mock_loop arm_positions [] = (None, arm_positions)"
| "write_mock_loop arm_positions ((motor_name, pos) # rest) =
     (case tensor_item pos of
        Inl e \<Rightarrow> (Some e, arm_positions)
      | Inr v \<Rightarrow> write_mock_loop (AList.update motor_name (py_float v) arm_positions) rest)"

definition write_mock_position ::
  "manipulator \<Rightarrow> tensor_dict \<Rightarrow> (py_error + bool) \<times> manipulator" where
  "write_mock_position r position =
     (case follower_arms_config (config r) of
        [] \<Rightarrow> (Inr False, r)
      | (arm_name, motors) # others \<Rightarrow>
          (let mp = (if map_of (mock_positions r) arm_name = None
                     then AList.update arm_name [] (mock_positions r) else mock_positions r);
               arm_positions = (case map_of mp arm_name of None \<Rightarrow> [] | Some ps \<Rightarrow> ps)
           in case write_mock_loop arm_positions position of
                (None, arm_positions') \<Rightarrow>
                  (Inr True, r\<lparr>mock_positions := AList.update arm_name arm_positions' mp\<rparr>)
              | (Some e, arm_positions') \<Rightarrow>
                  (Inl e, r\<lparr>mock_positions := AList.update arm_name arm_positions' mp\<rparr>)))"

definition write_real_position ::
  "manipulator \<Rightarrow> tensor_dict \<Rightarrow> (py_error + bool) \<times> manipulator" where
  "write_real_position r position =
     (if follower_arms r \<noteq> [] then
        (if write_ok (hw r) (bus_calls r)
         then (Inr True,
               r\<lparr>bus_calls := Suc (bus_calls r), bus_written := bus_written r @ [position]\<rparr>)
         else (Inr False, r\<lparr>bus_calls := Suc (bus_calls r)\<rparr>))
      else (Inr False, r))"

definition write_dispatch ::
  "manipulator \<Rightarrow> tensor_dict \<Rightarrow> (py_error + bool) \<times> manipulator" where
  "write_dispatch r position =
     (if mock_mode r then write_mock_position r position else write_real_position r position)"

text \<open>
  \<open>write_position\<close>: with a \<open>max_relative_target\<close> configured, the present position is
  read and, unless it is empty, the goal goes through the clamping loop; the warning is
  only logged. An exception of the loop leaves the method before anything is written.
\<close>

definition write_position ::
  "manipulator \<Rightarrow> tensor_dict \<Rightarrow> (py_error + bool) \<times> manipulator" where
  "write_position r position =
     (if \<not> robot_is_connected r then (Inl RuntimeError, r)
      else
        (let r0 = r\<lparr>io_log := io_log r @ [WritePosition position]\<rparr>
         in case max_relative_target (config r0) of
              None \<Rightarrow> write_dispatch r0 position
            | Some M \<Rightarrow>
                (case read_position r0 of
                   (Inl e, r1) \<Rightarrow> (Inl e, r1)
                 | (Inr current_pos, r1) \<Rightarrow>
                     (if current_pos \<noteq> []
                      then (case safe_position position current_pos M of
                              Inl e \<Rightarrow> (Inl e, r1)
                            | Inr (position', warned) \<Rightarrow> write_dispatch r1 position')
                      else write_dispatch r1 position))))"

text \<open>
  \<open>get_current_positions\<close> turns the tensors that were read into Python floats with
  \<open>float(pos.item())\<close>, and \<open>move_to_position\<close> of the adapter turns the setpoints into
  tensors with \<open>torch.tensor([pos])\<close> before it writes them; both are dictionary
  comprehensions and stop at the first exception.
\<close>

fun items_to_floats :: "tensor_dict \<Rightarrow> py_error + position" where
  "items_to_floats [] = Inr []"
| "items_to_floats ((name, pos) # rest) =
     bind_err (tensor_item pos) (\<lambda>v.
     bind_err (items_to_floats rest) (\<lambda>ps. Inr ((name, PyFloat (py_float v)) # ps)))"

fun numbers_to_tensors :: "position \<Rightarrow> py_error + tensor_dict" where
  "numbers_to_tensors [] = Inr []"
| "numbers_to_tensors ((name, pos) # rest) =
     bind_err (torch_tensor [pos]) (\<lambda>t.
     bind_err (numbers_to_tensors rest) (\<lambda>ts. Inr ((name, t) # ts)))"

definition get_current_positions :: "manipulator \<Rightarrow> (py_error + position) \<times> manipulator" where
  "get_current_positions r =
     (case read_position r of
        (Inl e, r1) \<Rightarrow> (Inl e, r1)
      | (Inr positions, r1) \<Rightarrow> (items_to_floats positions, r1))"

definition robot_move_to_position ::
  "manipulator \<Rightarrow> position \<Rightarrow> (py_error + bool) \<times> manipulator" where
  "robot_move_to_position r target_positions =
     (case numbers_to_tensors target_positions of
        Inl e \<Rightarrow> (Inl e, r)
      | Inr tensor_positions \<Rightarrow> write_position r tensor_positions)"

text \<open>
  \<open>smooth_move_to_position\<close> of \<open>robot_utils.py\<close>: the whole body is inside one
  \<open>try\<close>, so an exception from reading, interpolating or writing gives \<open>False\<close>; the
  boolean that \<open>robot.move_to_position\<close> returns is not looked at. The delay between two
  writes is not modelled.
\<close>

fun smooth_move_loop :: "manipulator \<Rightarrow> position list \<Rightarrow> bool \<times> manipulator" where
  "smooth_move_loop r [] = (True, r)"
| "smooth_move_loop r (pos # rest) =
     (case robot_move_to_position r pos of
        (Inl e, r1) \<Rightarrow> (False, r1)
      | (Inr ok, r1) \<Rightarrow> smooth_move_loop r1 rest)"

definition smooth_move_to_position :: "manipulator \<Rightarrow> position \<Rightarrow> int \<Rightarrow> bool \<times> manipulator" where
  "smooth_move_to_position robot target_positions steps =
     (case get_current_positions robot of
        (Inl e, r1) \<Rightarrow> (False, r1)
      | (Inr current_positions, r1) \<Rightarrow>
          (case interpolate_positions current_positions target_positions steps of
             Inl e \<Rightarrow> (False, r1)
           | Inr path \<Rightarrow> smooth_move_loop r1 path))"

section \<open>The motion controller of \<open>enhanced_robot_interface.py\<close>\<close>

text \<open>
  The signals of \<open>EnhancedRobotInterface\<close> are Qt signals; every \<open>emit\<close> is appended
  to the list \<open>events\<close> of the state, so "no event" is a statement about that list. The
  text of \<open>error_occurred\<close> is a fixed prefix followed by the text of the exception that
  was caught; the event carries the exception.
\<close>

datatype event =
    StatusChanged string
  | PositionReached string
  | MovementStarted string
  | MovementCompleted string
  | ErrorOccurred py_error

record robot_interface =
  is_connected :: bool
  current_position :: string
  target_position :: "string option"
  is_moving :: bool
  torque_enabled :: bool
  lerobot_robot :: "manipulator option"
  use_lerobot :: bool
  lerobot_available :: bool
  saved_positions :: "(string \<times> position) list"
  events :: "event list"

text \<open>
  The constructor. \<open>LEROBOT_AVAILABLE\<close> is a constant of the module, fixed when the
  module is imported: it is true when the \<open>import\<close> statements of the integration, all
  inside one \<open>try\<close>, went through, and false when one of them raised \<open>ImportError\<close>, in
  which case the names they would have bound (\<open>check_position_safety\<close> among them, which
  the last statement imports) stay unbound. The methods read the constant, so the state
  carries it as \<open>lerobot_available\<close>. \<open>loaded\<close> is what \<open>load_positions_from_file\<close>
  returned; an empty table is replaced by the default one.
\<close>

definition EnhancedRobotInterface_init :: "bool \<Rightarrow> (string \<times> position) list \<Rightarrow> robot_interface" where
  "EnhancedRobotInterface_init LEROBOT_AVAILABLE loaded =
     \<lparr>is_connected = False, current_position = ''unknown'', target_position = None,
      is_moving = False, torque_enabled = False, lerobot_robot = None,
      use_lerobot = LEROBOT_AVAILABLE,
      lerobot_available = LEROBOT_AVAILABLE,
      saved_positions =
        (if LEROBOT_AVAILABLE \<and> loaded \<noteq> [] then loaded
         else if LEROBOT_AVAILABLE then create_default_positions
         else [(''rest'', [(''shoulder_pan'', PyInt 0), (''shoulder_lift'', PyInt (-1024)),
                           (''elbow_flex'', PyInt 1024), (''wrist_flex'', PyInt 0),
                           (''wrist_roll'', PyInt 0)])]),
      events = []\<rparr>"

text \<open>
  \<open>joint_limits\<close> is assigned once, in the constructor, to
  \<open>get_so101_joint_limits() if LEROBOT_AVAILABLE else {}\<close>, and no method assigns it
  again: it is this function of the state.
\<close>

definition joint_limits :: "robot_interface \<Rightarrow> limits" where
  "joint_limits s = (if lerobot_available s then get_so101_joint_limits else [])"

definition connect_basic :: "robot_interface \<Rightarrow> bool \<times> robot_interface" where
  "connect_basic s =
     (True, s\<lparr>is_connected := True, current_position := ''rest'',
               events := events s @ [StatusChanged ''connected'']\<rparr>)"

text \<open>
  \<open>_connect_lerobot\<close>: the configuration is built with \<open>mock=False\<close> and without the
  gripper, the adapter is created on it and connected. Building the configuration and the
  adapter raises nothing, and the adapter's \<open>connect\<close> catches every exception of its
  own, so no step inside the \<open>try\<close> raises and the handler (which would switch to
  \<open>_connect_basic\<close>) has no branch in the model. (\<open>use_lerobot\<close> starts as
  \<open>LEROBOT_AVAILABLE\<close> and is never switched on, so the method runs only where the names
  it uses were imported.) \<open>world\<close> is the driver library and the devices the adapter
  meets.
\<close>

definition connect_lerobot :: "hardware \<Rightarrow> robot_interface \<Rightarrow> bool \<times> robot_interface" where
  "connect_lerobot world s =
     (let lerobot_config = create_projecto_follower_only_config False False;
          robot = ManipulatorRobot_init lerobot_config world
      in case robot_connect robot of
           (True, robot1) \<Rightarrow>
             (True, s\<lparr>lerobot_robot := Some robot1, is_connected := True,
                       current_position := ''rest'',
                       events := events s @ [StatusChanged ''connected'']\<rparr>)
         | (False, robot1) \<Rightarrow> (False, s\<lparr>lerobot_robot := Some robot1\<rparr>))"

definition connect :: "hardware \<Rightarrow> robot_interface \<Rightarrow> bool \<times> robot_interface" where
  "connect world s = (if use_lerobot s then connect_lerobot world s else connect_basic s)"

text \<open>
  Python's \<open>int(x)\<close> on a float truncates toward zero. A duration is
  \<open>Optional[float]\<close>; \<open>if duration:\<close> holds for a value that is neither \<open>None\<close> nor
  zero.
\<close>

definition py_int :: "real \<Rightarrow> int" where
  "py_int x = (if 0 \<le> x then \<lfloor>x\<rfloor> else \<lceil>x\<rceil>)"

definition move_lerobot ::
  "manipulator \<Rightarrow> position \<Rightarrow> real option \<Rightarrow> bool \<times> manipulator" where
  "move_lerobot robot target_positions duration =
     (case duration of
        Some d \<Rightarrow>
          (if d \<noteq> 0 then smooth_move_to_position robot target_positions (py_int (d * 10))
           else (case robot_move_to_position robot target_positions of
                   (Inl e, robot1) \<Rightarrow> (False, robot1)
                 | (Inr ok, robot1) \<Rightarrow> (ok, robot1)))
      | None \<Rightarrow>
          (case robot_move_to_position robot target_positions of
             (Inl e, robot1) \<Rightarrow> (False, robot1)
           | (Inr ok, robot1) \<Rightarrow> (ok, robot1)))"

text \<open>\<open>_move_basic\<close> only sleeps and reports success; the sleep is not modelled.\<close>

definition move_basic :: "robot_interface \<Rightarrow> position \<Rightarrow> real option \<Rightarrow> bool \<times> robot_interface" where
  "move_basic s target_positions duration = (True, s)"

text \<open>
  \<open>move_to_position\<close>. The checks for the connection and for a movement in flight come
  before the \<open>try\<close>; the lookup of the preset and the safety check are inside it. The
  four rejections return before anything is changed. After them the call marks the
  movement, emits \<open>movement_started\<close>, runs the move, and then clears the mark and emits
  \<open>movement_completed\<close> whatever the move returned.

  Where \<open>LEROBOT_AVAILABLE\<close> is false the name \<open>check_position_safety\<close> is unbound, so
  the call of the safety check raises \<open>NameError\<close>, for every preset that the table has.
  The handler of the \<open>try\<close> catches it: it clears the flag and the target, emits
  \<open>error_occurred\<close> and returns \<open>False\<close>. Nothing else inside the \<open>try\<close> raises:
  \<open>_move_lerobot\<close> catches every exception itself and \<open>_move_basic\<close> only sleeps. One
  call is modelled from entry to return.
\<close>

definition move_to_position ::
  "robot_interface \<Rightarrow> string \<Rightarrow> real option \<Rightarrow> bool \<times> robot_interface" where
  "move_to_position s position_name duration =
     (if \<not> is_connected s then (False, s)
      else if is_moving s then (False, s)
      else
        (case map_of (saved_positions s) position_name of
           None \<Rightarrow> (False, s)
         | Some target_positions \<Rightarrow>
             (if \<not> lerobot_available s
              then (False, s\<lparr>is_moving := False, target_position := None,
                             events := events s @ [ErrorOccurred NameError]\<rparr>)
              else if \<not> check_position_safety target_positions (joint_limits s) then (False, s)
              else
                (let s1 = s\<lparr>is_moving := True, target_position := Some position_name,
                              events := events s @ [MovementStarted position_name]\<rparr>;
                     (success, s2) =
                       (case lerobot_robot s1 of
                          Some robot \<Rightarrow>
                            (if use_lerobot s1
                             then (case move_lerobot robot target_positions duration of
                                     (ok, robot1) \<Rightarrow> (ok, s1\<lparr>lerobot_robot := Some robot1\<rparr>))
                             else move_basic s1 target_positions duration)
                        | None \<Rightarrow> move_basic s1 target_positions duration);
                     s3 = (if success
                           then s2\<lparr>current_position := position_name,
                                   events := events s2 @ [PositionReached position_name]\<rparr>
                           else s2)
                 in (success, s3\<lparr>target_position := None, is_moving := False,
                                  events := events s3 @ [MovementCompleted position_name]\<rparr>)))))"

section \<open>The stage machine of \<open>stage_controller.py\<close>\<close>

text \<open>The stage names of \<open>AppSettings.Stage\<close> and the default stage.\<close>

definition REST :: string where "REST = ''rest''"
definition PRIMARY_INTERACTION :: string where "PRIMARY_INTERACTION = ''primary_interaction''"
definition MENU_DETAIL :: string where "MENU_DETAIL = ''menu_detail''"
definition OBJECT_RECOGNITION :: string where "OBJECT_RECOGNITION = ''object_recognition''"
definition SMART_CONTROL :: string where "SMART_CONTROL = ''smart_control''"
definition TRACKING_MODE :: string where "TRACKING_MODE = ''tracking_mode''"
definition GAME_MODE :: string where "GAME_MODE = ''game_mode''"
definition KEYBOARD_INPUT :: string where "KEYBOARD_INPUT = ''keyboard_input''"

definition DEFAULT_STAGE :: string where "DEFAULT_STAGE = REST"

text \<open>
  The signals are appended to \<open>signals\<close>. The sixteen enter and exit hooks only print;
  each call of one is appended to \<open>hooks_run\<close>, so "no hook ran" is a statement about the
  state. The idle timer is a \<open>QTimer\<close>: \<open>None\<close> when stopped, \<open>Some ms\<close> when running
  with that interval. Keyword arguments are a dictionary of strings.
\<close>

datatype stage_signal = StageChanged string string | StageEntered string | StageExited string

datatype hook = EnterHook string | ExitHook string

type_synonym kwargs = "(string \<times> string) list"

record stage_controller =
  current_stage :: string
  previous_stage :: "string option"
  stage_data :: "(string \<times> kwargs) list"
  idle_timer :: "nat option"
  idle_timeout_duration :: nat
  signals :: "stage_signal list"
  hooks_run :: "hook list"

definition StageController_init :: stage_controller where
  "StageController_init =
     \<lparr>current_stage = DEFAULT_STAGE, previous_stage = None, stage_data = [],
      idle_timer = None, idle_timeout_duration = 30000, signals = [], hooks_run = []\<rparr>"

definition is_valid_stage :: "string \<Rightarrow> bool" where
  "is_valid_stage stage \<longleftrightarrow>
     stage \<in> set [REST, PRIMARY_INTERACTION, MENU_DETAIL, OBJECT_RECOGNITION,
                  SMART_CONTROL, TRACKING_MODE, GAME_MODE, KEYBOARD_INPUT]"

text \<open>
  \<open>_enter_stage\<close> and \<open>_exit_stage\<close>: the chain of comparisons runs the hook of the
  stage, if it is one of the eight, and the signal is emitted in every case.
\<close>

definition enter_stage :: "stage_controller \<Rightarrow> string \<Rightarrow> stage_controller" where
  "enter_stage c stage =
     (let c1 =
        (if stage = REST then c\<lparr>hooks_run := hooks_run c @ [EnterHook REST]\<rparr>
         else if stage = PRIMARY_INTERACTION
           then c\<lparr>hooks_run := hooks_run c @ [EnterHook PRIMARY_INTERACTION]\<rparr>
         else if stage = MENU_DETAIL
           then c\<lparr>hooks_run := hooks_run c @ [EnterHook MENU_DETAIL]\<rparr>
         else if stage = OBJECT_RECOGNITION
           then c\<lparr>hooks_run := hooks_run c @ [EnterHook OBJECT_RECOGNITION]\<rparr>
         else if stage = SMART_CONTROL
           then c\<lparr>hooks_run := hooks_run c @ [EnterHook SMART_CONTROL]\<rparr>
         else if stage = TRACKING_MODE
           then c\<lparr>hooks_run := hooks_run c @ [EnterHook TRACKING_MODE]\<rparr>
         else if stage = GAME_MODE
           then c\<lparr>hooks_run := hooks_run c @ [EnterHook GAME_MODE]\<rparr>
         else if stage = KEYBOARD_INPUT
           then c\<lparr>hooks_run := hooks_run c @ [EnterHook KEYBOARD_INPUT]\<rparr>
         else c)
      in c1\<lparr>signals := signals c1 @ [StageEntered stage]\<rparr>)"

definition exit_stage :: "stage_controller \<Rightarrow> string \<Rightarrow> stage_controller" where
  "exit_stage c stage =
     (let c1 =
        (if stage = REST then c\<lparr>hooks_run := hooks_run c @ [ExitHook REST]\<rparr>
         else if stage = PRIMARY_INTERACTION
           then c\<lparr>hooks_run := hooks_run c @ [ExitHook PRIMARY_INTERACTION]\<rparr>
         else if stage = MENU_DETAIL
           then c\<lparr>hooks_run := hooks_run c @ [ExitHook MENU_DETAIL]\<rparr>
         else if stage = OBJECT_RECOGNITION
           then c\<lparr>hooks_run := hooks_run c @ [ExitHook OBJECT_RECOGNITION]\<rparr>
         else if stage = SMART_CONTROL
           then c\<lparr>hooks_run := hooks_run c @ [ExitHook SMART_CONTROL]\<rparr>
         else if stage = TRACKING_MODE
           then c\<lparr>hooks_run := hooks_run c @ [ExitHook TRACKING_MODE]\<rparr>
         else if stage = GAME_MODE
           then c\<lparr>hooks_run := hooks_run c @ [ExitHook GAME_MODE]\<rparr>
         else if stage = KEYBOARD_INPUT
           then c\<lparr>hooks_run := hooks_run c @ [ExitHook KEYBOARD_INPUT]\<rparr>
         else c)
      in c1\<lparr>signals := signals c1 @ [StageExited stage]\<rparr>)"

definition reset_idle_timer :: "stage_controller \<Rightarrow> stage_controller" where
  "reset_idle_timer c =
     (if current_stage c \<noteq> REST then c\<lparr>idle_timer := Some (idle_timeout_duration c)\<rparr>
      else c\<lparr>idle_timer := None\<rparr>)"

definition start :: "stage_controller \<Rightarrow> bool \<times> stage_controller" where
  "start c = (True, reset_idle_timer (enter_stage c (current_stage c)))"

definition stop :: "stage_controller \<Rightarrow> stage_controller" where
  "stop c =
     (let c1 = c\<lparr>idle_timer := None\<rparr>
      in if current_stage c1 \<noteq> [] then exit_stage c1 (current_stage c1) else c1)"

text \<open>
  \<open>change_stage\<close>: the comparison with the current stage comes first, the validity
  check second. The hooks and the emits inside the \<open>try\<close> raise nothing, so its handler
  has no branch in the model.
\<close>

definition change_stage :: "stage_controller \<Rightarrow> string \<Rightarrow> kwargs \<Rightarrow> bool \<times> stage_controller" where
  "change_stage c new_stage kw =
     (if new_stage = current_stage c then (True, c)
      else if \<not> is_valid_stage new_stage then (False, c)
      else
        (let c1 = (if kw \<noteq> [] then c\<lparr>stage_data := AList.update new_stage kw (stage_data c)\<rparr>
                   else c);
             old_stage = current_stage c1;
             c2 = exit_stage c1 old_stage;
             c3 = c2\<lparr>previous_stage := Some old_stage, current_stage := new_stage\<rparr>;
             c4 = enter_stage c3 new_stage;
             c5 = c4\<lparr>signals := signals c4 @ [StageChanged old_stage new_stage]\<rparr>
         in (True, reset_idle_timer c5)))"

definition go_to_rest :: "stage_controller \<Rightarrow> bool \<times> stage_controller" where
  "go_to_rest c = change_stage c REST []"

definition go_back :: "stage_controller \<Rightarrow> bool \<times> stage_controller" where
  "go_back c =
     (case previous_stage c of
        Some p \<Rightarrow> (if p \<noteq> [] then change_stage c p [] else change_stage c REST [])
      | None \<Rightarrow> change_stage c REST [])"

definition on_idle_timeout :: "stage_controller \<Rightarrow> stage_controller" where
  "on_idle_timeout c = snd (go_to_rest c)"

definition on_user_activity :: "stage_controller \<Rightarrow> stage_controller" where
  "on_user_activity c = reset_idle_timer c"

text \<open>
  The calls a client and the timer can make on a controller. \<open>TimerExpires\<close> is the
  timer's \<open>timeout\<close> signal: it reaches \<open>_on_idle_timeout\<close> only while the timer runs.
\<close>

datatype stage_call =
    Start
  | Stop
  | ChangeStage string kwargs
  | GoBack
  | GoToRest
  | UserActivity
  | TimerExpires

fun perform :: "stage_controller \<Rightarrow> stage_call \<Rightarrow> stage_controller" where
  "perform c Start = snd (start c)"
| "perform c Stop = stop c"
| "perform c (ChangeStage new_stage kw) = snd (change_stage c new_stage kw)"
| "perform c GoBack = snd (go_back c)"
| "perform c GoToRest = snd (go_to_rest c)"
| "perform c UserActivity = on_user_activity c"
| "perform c TimerExpires = (case idle_timer c of None \<Rightarrow> c | Some ms \<Rightarrow> on_idle_timeout c)"

definition run :: "stage_call list \<Rightarrow> stage_controller" where
  "run calls = foldl perform StageController_init calls"

section \<open>Example states\<close>

text \<open>
  A connected interface over a connected mock adapter whose table holds one preset,
  \<open>high\<close>, with the gripper beyond its range \<open>[0, 1024]\<close>.
\<close>

definition example_world :: hardware where
  "example_world =
     \<lparr>driver_present = False, bus_setup_ok = False, camera_setup_ok = False,
      read_reply = (\<lambda>n. None), write_ok = (\<lambda>n. False)\<rparr>"

definition example_limits_interface :: robot_interface where
  "example_limits_interface =
     (EnhancedRobotInterface_init True [(''high'', [(''shoulder_pan'', PyInt 0), (''gripper'', PyInt 2000)])])
       \<lparr>is_connected := True,
        lerobot_robot :=
          Some ((ManipulatorRobot_init (create_projecto_follower_only_config False True)
                   example_world)\<lparr>robot_is_connected := True\<rparr>)\<rparr>"

text \<open>
  The relation between the idle timer and the current stage that the running controller
  keeps: the timer runs, with the 30000 ms interval, exactly while the stage is not
  \<open>rest\<close>.
\<close>

definition timer_invariant :: "stage_controller \<Rightarrow> bool" where
  "timer_invariant c \<longleftrightarrow>
     idle_timeout_duration c = 30000 \<and>
     idle_timer c = (if current_stage c \<noteq> REST then Some 30000 else None)"


text \<open>
  The adapter a connection reaches where the driver library is missing (mock mode), and a
  connected interface over it with the default table of presets.
\<close>

definition example_robot :: manipulator where
  "example_robot =
     snd (robot_connect
            (ManipulatorRobot_init (create_projecto_follower_only_config False False)
               example_world))"

definition example_interface :: robot_interface where
  "example_interface =
     (EnhancedRobotInterface_init True [])
       \<lparr>is_connected := True, current_position := ''rest'',
        lerobot_robot := Some example_robot\<rparr>"



text \<open>
  A world in which the driver library is installed but opening the motor bus fails: the
  import inside \<open>_connect_real_devices\<close> succeeds and \<open>make_motors_buses_from_configs\<close>
  raises.
\<close>

definition transport_failure_world :: hardware where
  "transport_failure_world =
     \<lparr>driver_present = True, bus_setup_ok = False, camera_setup_ok = True,
      read_reply = (\<lambda>n. None), write_ok = (\<lambda>n. False)\<rparr>"

text \<open>
  A world in which the driver library and the devices come up and every write of
  \<open>Goal_Position\<close> on the follower bus raises; the adapter that \<open>connect\<close> reaches
  there (real mode), and the interface after \<open>connect()\<close> on it.
\<close>

definition write_failure_world :: hardware where
  "write_failure_world =
     \<lparr>driver_present = True, bus_setup_ok = True, camera_setup_ok = True,
      read_reply = (\<lambda>n. None), write_ok = (\<lambda>n. False)\<rparr>"

definition write_failure_robot :: manipulator where
  "write_failure_robot =
     snd (robot_connect (ManipulatorRobot_init
            (create_projecto_follower_only_config False False) write_failure_world))"

definition write_failure_interface :: robot_interface where
  "write_failure_interface =
     snd (connect write_failure_world (EnhancedRobotInterface_init True []))"

text \<open>
  The interface of a process in which the integration could not be imported
  (\<open>LEROBOT_AVAILABLE\<close> false), after \<open>connect()\<close>: basic mode, with the one preset
  \<open>rest\<close> that the constructor gives it.
\<close>

definition basic_interface :: robot_interface where
  "basic_interface = snd (connect example_world (EnhancedRobotInterface_init False []))"

text \<open>
  The setpoints that the theorems about arithmetic are stated for: a float of the model
  holds a binary64 value, and a setpoint is below \<open>2 ^ 1000\<close> in magnitude, so that no
  sum, difference or product of the interpolation overflows.
\<close>

definition valid_setpoint :: "py_num \<Rightarrow> bool" where
  "valid_setpoint v \<longleftrightarrow>
     \<bar>py_val v\<bar> \<le> 2 ^ 1000 \<and>
     (case v of PyInt n \<Rightarrow> True | PyFloat x \<Rightarrow> round_binary64 x = x)"



section \<open>Properties of the rounding\<close>

text \<open>
  Integers round to themselves, a rounded number is a multiple of the spacing of its
  binade and is not changed by rounding it again.
\<close>

lemma round_half_even_of_int: "round_half_even (of_int n) = n"
  by (simp add: round_half_even_def)

lemma round_half_even_ge: "of_int a \<le> y \<Longrightarrow> a \<le> round_half_even y"
proof -
  assume "of_int a \<le> y"
  then have "a \<le> \<lfloor>y\<rfloor>" by (simp add: le_floor_iff)
  then show ?thesis by (simp add: round_half_even_def Let_def)
qed

lemma round_half_even_le: "y \<le> of_int b \<Longrightarrow> round_half_even y \<le> b"
proof (cases "y = of_int b")
  case True
  then show ?thesis by (simp add: round_half_even_of_int)
next
  case False
  assume "y \<le> of_int b"
  with False have "y < of_int b" by simp
  then have "\<lfloor>y\<rfloor> < b" by (simp add: floor_less_iff)
  then show ?thesis by (simp add: round_half_even_def Let_def)
qed


lemma floor_log2_iff:
  assumes "x \<noteq> 0"
  shows "(\<lfloor>log 2 \<bar>x\<bar>\<rfloor> = k) = (2 powi k \<le> \<bar>x\<bar> \<and> \<bar>x\<bar> < 2 powi (k + 1))"
proof -
  from assms have p: "0 < \<bar>x\<bar>" by simp
  have two: "(1::real) < 2" by simp
  have a: "2 powr real_of_int n = (2::real) powi n" for n
    by (simp add: powr_real_of_int')
  show ?thesis
    using floor_log_eq_powr_iff [OF p two, of k] unfolding a .
qed

lemma floor_log2_bounds:
  assumes "x \<noteq> 0"
  shows "2 powi \<lfloor>log 2 \<bar>x\<bar>\<rfloor> \<le> \<bar>x\<bar>" and "\<bar>x\<bar> < 2 powi (\<lfloor>log 2 \<bar>x\<bar>\<rfloor> + 1)"
  using floor_log2_iff [OF assms, of "\<lfloor>log 2 \<bar>x\<bar>\<rfloor>"] by blast+

lemma floor_log2_unique:
  assumes "2 powi e \<le> \<bar>x\<bar>" "\<bar>x\<bar> < 2 powi (e + 1)"
  shows "\<lfloor>log 2 \<bar>x\<bar>\<rfloor> = e"
proof -
  have "(0::real) < 2 powi e" by (simp add: zero_less_power_int)
  with assms(1) have "0 < \<bar>x\<bar>" by linarith
  then have "x \<noteq> 0" by simp
  from floor_log2_iff [OF this, of e] assms show ?thesis by blast
qed

lemma fp_round_multiple:
  assumes "x = of_int k * 2 powi j" "fp_exponent emin x - int p + 1 \<le> j"
  shows "fp_round p emin x = x"
proof (cases "x = 0")
  case True
  then show ?thesis by (simp add: fp_round_def)
next
  case False
  define E where "E = fp_exponent emin x - int p + 1"
  define d where "d = nat (j - E)"
  from assms(2) have j: "j = E + int d" by (simp add: E_def d_def)
  have q: "(2::real) powi j = 2 powi E * 2 ^ d"
    unfolding j by (simp add: power_int_add)
  have "x / 2 powi E = of_int k * 2 ^ d"
    unfolding assms(1) q by simp
  also have "\<dots> = of_int (k * 2 ^ d)" by simp
  finally have "round_half_even (x / 2 powi E) = k * 2 ^ d"
    by (simp only: round_half_even_of_int)
  then have "fp_round p emin x = of_int (k * 2 ^ d) * 2 powi E"
    using False by (simp add: fp_round_def E_def Let_def)
  also have "\<dots> = x" unfolding assms(1) q by simp
  finally show ?thesis .
qed

lemma fp_round_zero: "fp_round p emin 0 = 0"
  by (simp add: fp_round_def)


lemma fp_round_of_int:
  assumes "\<bar>n\<bar> < 2 ^ p" "emin \<le> 0" "0 < p"
  shows "fp_round p emin (of_int n) = of_int n"
proof (cases "n = 0")
  case True
  then show ?thesis by (simp add: fp_round_zero)
next
  case False
  define x where "x = (of_int n :: real)"
  from False have x0: "x \<noteq> 0" by (simp add: x_def)
  from assms(1) have "\<bar>x\<bar> < 2 ^ p"
    unfolding x_def by (metis of_int_abs of_int_less_numeral_power_cancel_iff)
  then have lt: "\<bar>x\<bar> < 2 powi int p" by (simp add: power_int_of_nat)
  have "\<lfloor>log 2 \<bar>x\<bar>\<rfloor> < int p"
  proof (rule ccontr)
    assume "\<not> \<lfloor>log 2 \<bar>x\<bar>\<rfloor> < int p"
    then have "int p \<le> \<lfloor>log 2 \<bar>x\<bar>\<rfloor>" by simp
    then have "(2::real) powi int p \<le> 2 powi \<lfloor>log 2 \<bar>x\<bar>\<rfloor>"
      by (rule power_int_increasing) simp
    with floor_log2_bounds(1) [OF x0] lt show False by linarith
  qed
  with assms(2,3) have "fp_exponent emin x - int p + 1 \<le> 0"
    by (simp add: fp_exponent_def)
  moreover have "x = of_int n * 2 powi 0" by (simp add: x_def)
  ultimately have "fp_round p emin x = x" by (rule fp_round_multiple [rotated])
  then show ?thesis by (simp add: x_def)
qed

lemma fp_round_abs_le:
  assumes "x \<noteq> 0" "0 < p"
  shows "\<bar>fp_round p emin x\<bar> \<le> 2 powi (fp_exponent emin x + 1)"
proof -
  define E where "E = fp_exponent emin x"
  define q where "q = (2::real) powi (E - int p + 1)"
  have q0: "0 < q" by (simp add: q_def zero_less_power_int)
  have top: "2 powi (E + 1) = 2 ^ p * q"
  proof -
    have "E + 1 = int p + (E - int p + 1)" by simp
    then have "(2::real) powi (E + 1) = 2 powi int p * 2 powi (E - int p + 1)"
      by (metis power_int_add zero_neq_numeral)
    then show ?thesis by (simp add: q_def power_int_of_nat)
  qed
  have "\<lfloor>log 2 \<bar>x\<bar>\<rfloor> + 1 \<le> E + 1" by (simp add: E_def fp_exponent_def)
  then have "(2::real) powi (\<lfloor>log 2 \<bar>x\<bar>\<rfloor> + 1) \<le> 2 powi (E + 1)"
    by (rule power_int_increasing) simp
  with floor_log2_bounds(2) [OF assms(1)] have "\<bar>x\<bar> < 2 ^ p * q"
    unfolding top by linarith
  then have xq: "\<bar>x\<bar> / q < 2 ^ p" using q0 by (simp add: field_simps)
  have aq: "\<bar>q\<bar> = q" using q0 by simp
  have "\<bar>x / q\<bar> = \<bar>x\<bar> / \<bar>q\<bar>" by (rule abs_divide)
  with aq have "\<bar>x / q\<bar> = \<bar>x\<bar> / q" by (simp only:)
  with xq have "\<bar>x / q\<bar> < 2 ^ p" by (simp only:)
  then have "x / q \<le> 2 ^ p" "- (2 ^ p) \<le> x / q" by linarith+
  then have b: "x / q \<le> of_int (2 ^ p)" "of_int (- (2 ^ p)) \<le> x / q" by simp_all
  have "round_half_even (x / q) \<le> 2 ^ p" "- (2 ^ p) \<le> round_half_even (x / q)"
    using round_half_even_le [OF b(1)] round_half_even_ge [OF b(2)] by simp_all
  then have "\<bar>round_half_even (x / q)\<bar> \<le> 2 ^ p" by simp
  then have "\<bar>real_of_int (round_half_even (x / q))\<bar> \<le> 2 ^ p"
    by (metis of_int_abs of_int_le_numeral_power_cancel_iff)
  then have "\<bar>real_of_int (round_half_even (x / q)) * q\<bar> \<le> 2 ^ p * q"
    using q0 by (simp add: abs_mult)
  then show ?thesis
    using assms(1) unfolding top [symmetric] by (simp add: fp_round_def E_def q_def Let_def)
qed


lemma fp_exponent_ge: "emin \<le> fp_exponent emin x"
  by (simp add: fp_exponent_def)

lemma fp_exponent_le:
  assumes "x \<noteq> 0" "\<bar>x\<bar> < 2 powi (E + 1)" "emin \<le> E"
  shows "fp_exponent emin x \<le> E"
proof -
  have "\<lfloor>log 2 \<bar>x\<bar>\<rfloor> < E + 1"
  proof (rule ccontr)
    assume "\<not> \<lfloor>log 2 \<bar>x\<bar>\<rfloor> < E + 1"
    then have "E + 1 \<le> \<lfloor>log 2 \<bar>x\<bar>\<rfloor>" by simp
    then have "(2::real) powi (E + 1) \<le> 2 powi \<lfloor>log 2 \<bar>x\<bar>\<rfloor>"
      by (rule power_int_increasing) simp
    with floor_log2_bounds(1) [OF assms(1)] assms(2) show False by linarith
  qed
  with assms(3) show ?thesis by (simp add: fp_exponent_def)
qed

lemma fp_round_idem:
  assumes "0 < p"
  shows "fp_round p emin (fp_round p emin x) = fp_round p emin x"
proof (cases "fp_round p emin x = 0")
  case True
  then show ?thesis by (simp add: fp_round_zero)
next
  case False
  then have x0: "x \<noteq> 0" by (auto simp: fp_round_zero)
  define E where "E = fp_exponent emin x"
  define y where "y = fp_round p emin x"
  define m where "m = round_half_even (x / 2 powi (E - int p + 1))"
  have ym: "y = of_int m * 2 powi (E - int p + 1)"
    using x0 by (simp add: y_def m_def fp_round_def E_def Let_def)
  have y0: "y \<noteq> 0" using False by (simp add: y_def)
  have le: "\<bar>y\<bar> \<le> 2 powi (E + 1)"
    unfolding y_def E_def by (rule fp_round_abs_le [OF x0 assms])
  have emin: "emin \<le> E" unfolding E_def by (rule fp_exponent_ge)
  show ?thesis
  proof (cases "\<bar>y\<bar> = 2 powi (E + 1)")
    case True
    have "(2::real) powi (E + 1) < 2 powi (E + 1 + 1)"
      by (rule power_int_strict_increasing) simp_all
    with True have "\<lfloor>log 2 \<bar>y\<bar>\<rfloor> = E + 1"
      by (intro floor_log2_unique) simp_all
    with emin have ey: "fp_exponent emin y = E + 1" by (simp add: fp_exponent_def)
    from True have "y = of_int (if 0 \<le> y then 1 else - 1) * 2 powi (E + 1)"
      by (auto simp: abs_if split: if_splits)
    moreover have "fp_exponent emin y - int p + 1 \<le> E + 1"
      using ey assms by simp
    ultimately have "fp_round p emin y = y" by (rule fp_round_multiple)
    then show ?thesis by (simp add: y_def)
  next
    case False
    with le have "\<bar>y\<bar> < 2 powi (E + 1)" by simp
    from fp_exponent_le [OF y0 this emin]
    have "fp_exponent emin y - int p + 1 \<le> E - int p + 1" by simp
    with ym have "fp_round p emin y = y" by (rule fp_round_multiple)
    then show ?thesis by (simp add: y_def)
  qed
qed

lemma round_half_even_eval: "\<bar>y - of_int k\<bar> < 1 / 2 \<Longrightarrow> round_half_even y = k"
proof -
  assume a: "\<bar>y - of_int k\<bar> < 1 / 2"
  have b: "of_int \<lfloor>y\<rfloor> \<le> y" "y < of_int \<lfloor>y\<rfloor> + 1" by linarith+
  show ?thesis
  proof (cases "y - of_int \<lfloor>y\<rfloor> < 1 / 2")
    case True
    with a b have "of_int k - 1 < (of_int \<lfloor>y\<rfloor> :: real)" "(of_int \<lfloor>y\<rfloor> :: real) < of_int k + 1"
      by linarith+
    then have "k - 1 < \<lfloor>y\<rfloor>" "\<lfloor>y\<rfloor> < k + 1" by linarith+
    then have "\<lfloor>y\<rfloor> = k" by simp
    with True show ?thesis by (simp add: round_half_even_def Let_def)
  next
    case False
    with a b have "of_int k - 2 < (of_int \<lfloor>y\<rfloor> :: real)" "(of_int \<lfloor>y\<rfloor> :: real) < of_int k"
      by linarith+
    then have "k - 2 < \<lfloor>y\<rfloor>" "\<lfloor>y\<rfloor> < k" by linarith+
    then have f: "\<lfloor>y\<rfloor> = k - 1" by simp
    from a have "of_int k - 1 / 2 < y" by linarith
    then have "1 / 2 < y - of_int (k - 1)" by simp
    then have "1 / 2 < y - of_int \<lfloor>y\<rfloor>" unfolding f .
    with f show ?thesis by (simp add: round_half_even_def Let_def)
  qed
qed

lemma fp_round_eval:
  assumes "2 powi e \<le> \<bar>x\<bar>" "\<bar>x\<bar> < 2 powi (e + 1)" "emin \<le> e"
  shows "fp_round p emin x =
           of_int (round_half_even (x / 2 powi (e - int p + 1))) * 2 powi (e - int p + 1)"
proof -
  have "(0::real) < 2 powi e" by (simp add: zero_less_power_int)
  with assms(1) have "0 < \<bar>x\<bar>" by linarith
  then have x0: "x \<noteq> 0" by simp
  from floor_log2_unique [OF assms(1,2)] assms(3) have "fp_exponent emin x = e"
    by (simp add: fp_exponent_def)
  with x0 show ?thesis by (simp add: fp_round_def Let_def)
qed

lemma round_binary64_zero: "round_binary64 0 = 0"
  by (simp add: round_binary64_def fp_round_zero)

lemma round_binary64_idem: "round_binary64 (round_binary64 x) = round_binary64 x"
  by (simp add: round_binary64_def fp_round_idem)

lemma round_binary64_of_int: "\<bar>n\<bar> < 2 ^ 53 \<Longrightarrow> round_binary64 (of_int n) = of_int n"
  by (simp add: round_binary64_def fp_round_of_int)

lemma round_binary64_one: "round_binary64 1 = 1"
  using round_binary64_of_int [of 1] by simp













section \<open>Properties of the helpers\<close>

lemma check_position_safety_iff:
  "check_position_safety positions limits \<longleftrightarrow>
     (\<forall>(joint, pos) \<in> set positions.
        case map_of limits joint of
          Some (min_pos, max_pos) \<Rightarrow> min_pos \<le> py_val pos \<and> py_val pos \<le> max_pos
        | None \<Rightarrow> True)"
  by (induction positions limits rule: check_position_safety.induct)
     (auto split: option.splits)

lemma interpolate_loop_nonzero:
  "steps \<noteq> 0 \<Longrightarrow>
   interpolate_loop start_pos end_pos steps xs acc =
     Inr (acc @ map (\<lambda>step. interpolate_at start_pos end_pos
                               (round_binary64 (real_of_int step / real_of_int steps))) xs)"
  by (induction xs arbitrary: acc) (simp_all add: true_div_def)

lemma interpolate_positions_nonzero:
  "steps \<noteq> 0 \<Longrightarrow>
   interpolate_positions start_pos end_pos steps =
     Inr (map (\<lambda>step. interpolate_at start_pos end_pos
                         (round_binary64 (real_of_int step / real_of_int steps))) [0..steps])"
  by (simp add: interpolate_positions_def interpolate_loop_nonzero)


lemma map_of_interpolate_at:
  "map_of (interpolate_at start_pos end_pos t) joint =
     (case map_of start_pos joint of
        None \<Rightarrow> None
      | Some s \<Rightarrow>
          (case map_of end_pos joint of
             Some e \<Rightarrow> Some (py_add s (py_mul (PyFloat t) (py_sub e s)))
           | None \<Rightarrow> Some s))"
  by (induction start_pos) (auto simp: interpolate_at_def split: option.splits)

lemma keys_interpolate_at:
  "map fst (interpolate_at start_pos end_pos t) = map fst start_pos"
  by (induction start_pos) (auto simp: interpolate_at_def)

lemma not_safe_iff:
  "\<not> check_position_safety positions limits \<longleftrightarrow>
     (\<exists>joint pos min_pos max_pos. (joint, pos) \<in> set positions \<and>
        map_of limits joint = Some (min_pos, max_pos) \<and> \<not> (min_pos \<le> py_val pos \<and> py_val pos \<le> max_pos))"
  unfolding check_position_safety_iff
  by (fastforce split: option.splits)

section \<open>Claims about the motion controller\<close>

text \<open>
  C1. \<open>check_position_safety\<close> returns false exactly when some joint of the position
  that has an entry in the limit table lies outside its range. A \<open>move_to_position\<close>
  call made while connected and not moving, to a preset with such a joint, returns
  \<open>False\<close> and leaves the whole state as it was: the adapter inside the state, with its
  log of reads and writes and its bus, is untouched, and no event is emitted. (The limit
  table has entries only where the integration was imported, so the safety check is
  bound and runs.)
\<close>

theorem C1_unsafe_position_rejected_without_io:
  "(\<not> check_position_safety positions limits \<longleftrightarrow>
      (\<exists>joint pos min_pos max_pos. (joint, pos) \<in> set positions \<and>
         map_of limits joint = Some (min_pos, max_pos) \<and> \<not> (min_pos \<le> py_val pos \<and> py_val pos \<le> max_pos)))
   \<and> (is_connected s \<and> \<not> is_moving s \<and>
        map_of (saved_positions s) position_name = Some target_positions \<and>
        (joint, pos) \<in> set target_positions \<and>
        map_of (joint_limits s) joint = Some (min_pos, max_pos) \<and>
        \<not> (min_pos \<le> py_val pos \<and> py_val pos \<le> max_pos)
        \<longrightarrow> move_to_position s position_name duration = (False, s))"
proof (intro conjI impI)
  show "\<not> check_position_safety positions limits \<longleftrightarrow>
      (\<exists>joint pos min_pos max_pos. (joint, pos) \<in> set positions \<and>
         map_of limits joint = Some (min_pos, max_pos) \<and> \<not> (min_pos \<le> py_val pos \<and> py_val pos \<le> max_pos))"
    by (rule not_safe_iff)
next
  assume a: "is_connected s \<and> \<not> is_moving s \<and>
        map_of (saved_positions s) position_name = Some target_positions \<and>
        (joint, pos) \<in> set target_positions \<and>
        map_of (joint_limits s) joint = Some (min_pos, max_pos) \<and>
        \<not> (min_pos \<le> py_val pos \<and> py_val pos \<le> max_pos)"
  then have u: "\<not> check_position_safety target_positions (joint_limits s)"
    unfolding not_safe_iff by blast
  from a have "joint_limits s \<noteq> []" by auto
  then have "lerobot_available s" by (auto simp: joint_limits_def split: if_splits)
  with a u show "move_to_position s position_name duration = (False, s)"
    by (simp add: move_to_position_def)
qed

theorem C1_unsafe_position_rejected_witness:
  "\<not> check_position_safety [(''shoulder_pan'', PyInt 0), (''gripper'', PyInt 2000)] get_so101_joint_limits
   \<and> move_to_position example_limits_interface ''high'' (Some 1) = (False, example_limits_interface)
   \<and> map_option io_log (lerobot_robot (snd (move_to_position example_limits_interface ''high'' (Some 1)))) = Some []"
proof -
  have h: "is_connected example_limits_interface \<and> \<not> is_moving example_limits_interface \<and>
        map_of (saved_positions example_limits_interface) ''high'' = Some [(''shoulder_pan'', PyInt 0), (''gripper'', PyInt 2000)] \<and>
        (''gripper'', PyInt 2000) \<in> set [(''shoulder_pan'', PyInt 0), (''gripper'', PyInt 2000)] \<and>
        map_of (joint_limits example_limits_interface) ''gripper'' = Some (0, 1024) \<and>
        \<not> ((0::real) \<le> py_val (PyInt 2000) \<and> py_val (PyInt 2000) \<le> 1024)"
    by (simp add: example_limits_interface_def EnhancedRobotInterface_init_def joint_limits_def
          get_so101_joint_limits_def)
  have e: "\<exists>joint pos min_pos max_pos. (joint, pos) \<in> set [(''shoulder_pan'', PyInt 0), (''gripper'', PyInt 2000)] \<and>
         map_of get_so101_joint_limits joint = Some (min_pos, max_pos) \<and> \<not> (min_pos \<le> py_val pos \<and> py_val pos \<le> max_pos)"
    by (rule exI[of _ "''gripper''"], rule exI[of _ "PyInt 2000"], rule exI[of _ 0], rule exI[of _ 1024])
       (simp add: get_so101_joint_limits_def)
  note t = C1_unsafe_position_rejected_without_io
    [of "[(''shoulder_pan'', PyInt 0), (''gripper'', PyInt 2000)]" get_so101_joint_limits
        example_limits_interface "''high''" "[(''shoulder_pan'', PyInt 0), (''gripper'', PyInt 2000)]"
        "''gripper''" "PyInt 2000" 0 1024 "Some 1"]
  from t e have 1: "\<not> check_position_safety [(''shoulder_pan'', PyInt 0), (''gripper'', PyInt 2000)] get_so101_joint_limits"
    by blast
  from t h have 2: "move_to_position example_limits_interface ''high'' (Some 1) = (False, example_limits_interface)"
    by blast
  have 3: "map_option io_log (lerobot_robot example_limits_interface) = Some []"
    by (simp add: example_limits_interface_def EnhancedRobotInterface_init_def ManipulatorRobot_init_def)
  from 1 2 3 show ?thesis by simp
qed

text \<open>
  C4. A \<open>move_to_position\<close> call that arrives while \<open>is_moving\<close> is set returns
  \<open>False\<close> at once and changes nothing: the flag stays set, the target and the current
  position name are kept, nothing is queued and no event is emitted.
\<close>

theorem C4_busy_rejection_keeps_state:
  "is_moving s \<Longrightarrow> move_to_position s position_name duration = (False, s)"
  by (simp add: move_to_position_def)

theorem C4_busy_rejection_witness:
  "is_moving (example_limits_interface\<lparr>is_moving := True, target_position := Some ''rest''\<rparr>)
   \<and> fst (move_to_position
             (example_limits_interface\<lparr>is_moving := True, target_position := Some ''rest''\<rparr>)
             ''high'' None) = False
   \<and> target_position (snd (move_to_position
             (example_limits_interface\<lparr>is_moving := True, target_position := Some ''rest''\<rparr>)
             ''high'' None)) = Some ''rest''
   \<and> events (snd (move_to_position
             (example_limits_interface\<lparr>is_moving := True, target_position := Some ''rest''\<rparr>)
             ''high'' None)) = []"
proof -
  have h: "is_moving (example_limits_interface\<lparr>is_moving := True, target_position := Some ''rest''\<rparr>)"
    by simp
  have e: "events example_limits_interface = []"
    by (simp add: example_limits_interface_def EnhancedRobotInterface_init_def)
  show ?thesis
    using h e C4_busy_rejection_keeps_state [OF h, of "''high''" None] by simp
qed

section \<open>Claims about the stage machine\<close>

text \<open>
  C8. \<open>change_stage\<close> to the stage that is already current returns \<open>True\<close> and leaves
  the state as it was: no hook runs, no signal is emitted, and \<open>current_stage\<close>,
  \<open>previous_stage\<close>, the stage data and the idle timer are unchanged.
\<close>

theorem C8_change_to_current_stage_is_noop:
  "change_stage c (current_stage c) kw = (True, c)"
  by (simp add: change_stage_def)


lemmas stage_names = REST_def PRIMARY_INTERACTION_def MENU_DETAIL_def OBJECT_RECOGNITION_def
  SMART_CONTROL_def TRACKING_MODE_def GAME_MODE_def KEYBOARD_INPUT_def

lemma enter_stage_fields:
  "current_stage (enter_stage c stage) = current_stage c"
  "previous_stage (enter_stage c stage) = previous_stage c"
  "idle_timer (enter_stage c stage) = idle_timer c"
  "idle_timeout_duration (enter_stage c stage) = idle_timeout_duration c"
  by (simp_all add: enter_stage_def Let_def)

lemma exit_stage_fields:
  "current_stage (exit_stage c stage) = current_stage c"
  "previous_stage (exit_stage c stage) = previous_stage c"
  "idle_timer (exit_stage c stage) = idle_timer c"
  "idle_timeout_duration (exit_stage c stage) = idle_timeout_duration c"
  by (simp_all add: exit_stage_def Let_def)

lemma reset_idle_timer_fields:
  "current_stage (reset_idle_timer c) = current_stage c"
  "idle_timeout_duration (reset_idle_timer c) = idle_timeout_duration c"
  "idle_timer (reset_idle_timer c) =
     (if current_stage c \<noteq> REST then Some (idle_timeout_duration c) else None)"
  by (simp_all add: reset_idle_timer_def)

lemma change_stage_fields:
  "fst (change_stage c new_stage kw) \<longleftrightarrow> new_stage = current_stage c \<or> is_valid_stage new_stage"
  "current_stage (snd (change_stage c new_stage kw)) =
     (if is_valid_stage new_stage then new_stage else current_stage c)"
  "idle_timeout_duration (snd (change_stage c new_stage kw)) = idle_timeout_duration c"
  "idle_timer (snd (change_stage c new_stage kw)) =
     (if new_stage \<noteq> current_stage c \<and> is_valid_stage new_stage
      then (if new_stage \<noteq> REST then Some (idle_timeout_duration c) else None)
      else idle_timer c)"
  by (simp_all add: change_stage_def Let_def enter_stage_fields exit_stage_fields
        reset_idle_timer_fields)

lemma change_stage_rejects:
  "new_stage \<noteq> current_stage c \<Longrightarrow> \<not> is_valid_stage new_stage \<Longrightarrow>
   change_stage c new_stage kw = (False, c)"
  by (simp add: change_stage_def)

lemma is_valid_stage_REST: "is_valid_stage REST"
  by (simp add: is_valid_stage_def)

lemma perform_current_stage_valid:
  "is_valid_stage (current_stage c) \<Longrightarrow> is_valid_stage (current_stage (perform c call))"
  by (cases call)
     (auto simp: start_def stop_def Let_def go_back_def go_to_rest_def on_user_activity_def
        on_idle_timeout_def enter_stage_fields exit_stage_fields reset_idle_timer_fields
        change_stage_fields is_valid_stage_REST split: option.splits)

lemma foldl_perform_valid:
  "is_valid_stage (current_stage c) \<Longrightarrow>
   is_valid_stage (current_stage (foldl perform c calls))"
  by (induction calls arbitrary: c) (simp_all add: perform_current_stage_valid)

lemma run_current_stage_valid: "is_valid_stage (current_stage (run calls))"
  unfolding run_def
  by (rule foldl_perform_valid) (simp add: StageController_init_def DEFAULT_STAGE_def is_valid_stage_REST)

text \<open>
  C7. The valid stages are the eight names of the closed set. Whatever sequence of calls
  (start, stop, change_stage, go_back, go_to_rest, on_user_activity, timer expiry) a
  controller has received since it was built in the stage \<open>rest\<close>, its current stage
  is one of the eight; a \<open>change_stage\<close> to a name outside the set returns
  \<open>False\<close> and leaves the whole state (current and previous stage, stage data, timer,
  signals, hooks) as it was; and after a \<open>change_stage\<close> that returns \<open>True\<close> the
  current stage is one of the eight.
\<close>

theorem C7_current_stage_in_closed_set:
  "(is_valid_stage stage \<longleftrightarrow>
      stage \<in> {''rest'', ''primary_interaction'', ''menu_detail'', ''object_recognition'',
                ''smart_control'', ''tracking_mode'', ''game_mode'', ''keyboard_input''})
   \<and> current_stage (run []) = ''rest''
   \<and> is_valid_stage (current_stage (run calls))
   \<and> (\<not> is_valid_stage new_stage \<longrightarrow>
        change_stage (run calls) new_stage kw = (False, run calls))
   \<and> (fst (change_stage (run calls) new_stage kw) \<longrightarrow>
        is_valid_stage (current_stage (snd (change_stage (run calls) new_stage kw))))"
proof (intro conjI impI)
  show "is_valid_stage stage \<longleftrightarrow>
      stage \<in> {''rest'', ''primary_interaction'', ''menu_detail'', ''object_recognition'',
                ''smart_control'', ''tracking_mode'', ''game_mode'', ''keyboard_input''}"
    by (simp add: is_valid_stage_def stage_names)
  show "current_stage (run []) = ''rest''"
    by (simp add: run_def StageController_init_def DEFAULT_STAGE_def REST_def)
  show v: "is_valid_stage (current_stage (run calls))"
    by (rule run_current_stage_valid)
  show "change_stage (run calls) new_stage kw = (False, run calls)"
    if "\<not> is_valid_stage new_stage"
  proof -
    from that v have "new_stage \<noteq> current_stage (run calls)" by auto
    then show ?thesis using that by (rule change_stage_rejects)
  qed
  show "is_valid_stage (current_stage (snd (change_stage (run calls) new_stage kw)))"
    if "fst (change_stage (run calls) new_stage kw)"
    using v by (simp add: change_stage_fields)
qed

lemma perform_timer_invariant:
  "timer_invariant c \<Longrightarrow> call \<noteq> Stop \<Longrightarrow> timer_invariant (perform c call)"
  by (cases call)
     (auto simp: timer_invariant_def start_def go_back_def go_to_rest_def on_user_activity_def
        on_idle_timeout_def enter_stage_fields exit_stage_fields reset_idle_timer_fields
        change_stage_fields is_valid_stage_REST split: option.splits)

lemma foldl_perform_timer_invariant:
  "timer_invariant c \<Longrightarrow> Stop \<notin> set calls \<Longrightarrow> timer_invariant (foldl perform c calls)"
  by (induction calls arbitrary: c) (auto simp: perform_timer_invariant)

lemma run_timer_invariant: "Stop \<notin> set calls \<Longrightarrow> timer_invariant (run calls)"
  unfolding run_def
  by (rule foldl_perform_timer_invariant)
     (simp_all add: timer_invariant_def StageController_init_def DEFAULT_STAGE_def)


lemma stop_fields:
  "current_stage (stop c) = current_stage c"
  "idle_timer (stop c) = None"
  "idle_timeout_duration (stop c) = idle_timeout_duration c"
  by (simp_all add: stop_def Let_def exit_stage_fields)

lemma start_fields:
  "current_stage (snd (start c)) = current_stage c"
  "idle_timeout_duration (snd (start c)) = idle_timeout_duration c"
  "idle_timer (snd (start c)) =
     (if current_stage c \<noteq> REST then Some (idle_timeout_duration c) else None)"
  by (simp_all add: start_def reset_idle_timer_fields enter_stage_fields)

lemma init_fields:
  "current_stage StageController_init = ''rest''"
  "idle_timer StageController_init = None"
  "idle_timeout_duration StageController_init = 30000"
  by (simp_all add: StageController_init_def DEFAULT_STAGE_def REST_def)

lemmas stage_eval = run_def init_fields start_fields stop_fields change_stage_fields
  is_valid_stage_def stage_names

theorem C7_current_stage_in_closed_set_witness:
  "\<not> is_valid_stage ''bogus''
   \<and> current_stage (run [Start, ChangeStage ''game_mode'' []]) = ''game_mode''
   \<and> change_stage (run [Start, ChangeStage ''game_mode'' []]) ''bogus'' [] =
       (False, run [Start, ChangeStage ''game_mode'' []])
   \<and> fst (change_stage (run [Start, ChangeStage ''game_mode'' []]) ''menu_detail'' [])
   \<and> is_valid_stage (current_stage
         (snd (change_stage (run [Start, ChangeStage ''game_mode'' []]) ''menu_detail'' [])))"
proof -
  have a: "\<not> is_valid_stage ''bogus''"
    by (simp add: is_valid_stage_def stage_names)
  have b: "current_stage (run [Start, ChangeStage ''game_mode'' []]) = ''game_mode''"
    by (simp add: stage_eval)
  have c: "fst (change_stage (run [Start, ChangeStage ''game_mode'' []]) ''menu_detail'' [])"
    by (simp add: stage_eval)
  note t1 = C7_current_stage_in_closed_set
    [of "''bogus''" "[Start, ChangeStage ''game_mode'' []]" "''bogus''" "[]"]
  note t2 = C7_current_stage_in_closed_set
    [of "''bogus''" "[Start, ChangeStage ''game_mode'' []]" "''menu_detail''" "[]"]
  have d: "change_stage (run [Start, ChangeStage ''game_mode'' []]) ''bogus'' [] =
       (False, run [Start, ChangeStage ''game_mode'' []])"
    by (rule t1 [THEN conjunct2, THEN conjunct2, THEN conjunct2, THEN conjunct1, rule_format, OF a])
  have e: "is_valid_stage (current_stage
         (snd (change_stage (run [Start, ChangeStage ''game_mode'' []]) ''menu_detail'' [])))"
    by (rule t2 [THEN conjunct2, THEN conjunct2, THEN conjunct2, THEN conjunct2, rule_format, OF c])
  show ?thesis by (intro conjI a b c d e)
qed

text \<open>
  C9, as stated, fails once \<open>stop()\<close> has been called: \<open>stop\<close> halts the timer and
  keeps the stage, and a \<open>change_stage\<close> to the stage that is current returns
  \<open>True\<close> without touching the timer. After entering \<open>tracking_mode\<close>, stopping and
  calling \<open>change_stage("tracking_mode")\<close>, the call succeeds, the stage is not
  \<open>rest\<close> and the timer is not armed.
\<close>

theorem C9_idle_timer_counterexample:
  "fst (change_stage (run [ChangeStage ''tracking_mode'' [], Stop]) ''tracking_mode'' [])
   \<and> current_stage (snd (change_stage (run [ChangeStage ''tracking_mode'' [], Stop])
                            ''tracking_mode'' [])) = ''tracking_mode''
   \<and> idle_timer (snd (change_stage (run [ChangeStage ''tracking_mode'' [], Stop])
                         ''tracking_mode'' [])) = None"
  by (simp add: stage_eval)

text \<open>
  C9, amended. On a controller that has not been stopped, after every sequence of
  \<open>start\<close>, \<open>change_stage\<close>, \<open>go_back\<close>, \<open>go_to_rest\<close>,
  \<open>on_user_activity\<close> calls and timer expiries the idle timer is armed exactly when
  the current stage is not \<open>rest\<close>, and an armed timer runs with 30000 ms. Hence a
  \<open>change_stage("rest")\<close> succeeds and leaves the timer disarmed, a successful change to
  a stage other than \<open>rest\<close> leaves it armed with 30000 ms, and the expiry of the
  timer puts the controller into \<open>rest\<close> with the timer disarmed. On any controller
  \<open>c\<close>, stopped or not, \<open>start\<close>, \<open>on_user_activity\<close> and a \<open>change_stage\<close>
  that changes the stage establish the equivalence.
\<close>

theorem C9_idle_timer_armed_iff_not_rest:
  assumes "Stop \<notin> set calls"
  shows
  "(idle_timer (run calls) \<noteq> None \<longleftrightarrow> current_stage (run calls) \<noteq> ''rest'')
   \<and> (idle_timer (run calls) = None \<or> idle_timer (run calls) = Some 30000)
   \<and> fst (change_stage (run calls) ''rest'' kw)
   \<and> idle_timer (snd (change_stage (run calls) ''rest'' kw)) = None
   \<and> (is_valid_stage new_stage \<and> new_stage \<noteq> ''rest'' \<longrightarrow>
        fst (change_stage (run calls) new_stage kw) \<and>
        idle_timer (snd (change_stage (run calls) new_stage kw)) = Some 30000)
   \<and> (idle_timer (run calls) \<noteq> None \<longrightarrow>
        current_stage (perform (run calls) TimerExpires) = ''rest'' \<and>
        idle_timer (perform (run calls) TimerExpires) = None)
   \<and> (idle_timer (snd (start c)) \<noteq> None \<longleftrightarrow> current_stage (snd (start c)) \<noteq> ''rest'')
   \<and> (idle_timer (on_user_activity c) \<noteq> None \<longleftrightarrow>
        current_stage (on_user_activity c) \<noteq> ''rest'')
   \<and> (new_stage \<noteq> current_stage c \<and> is_valid_stage new_stage \<longrightarrow>
        (idle_timer (snd (change_stage c new_stage kw)) \<noteq> None \<longleftrightarrow>
         current_stage (snd (change_stage c new_stage kw)) \<noteq> ''rest''))"
proof -
  from assms have inv: "timer_invariant (run calls)" by (rule run_timer_invariant)
  have r: "REST = ''rest''" by (simp add: REST_def)
  have v: "is_valid_stage ''rest''" using is_valid_stage_REST by (simp add: r)
  from inv have 1: "idle_timer (run calls) \<noteq> None \<longleftrightarrow> current_stage (run calls) \<noteq> ''rest''"
    by (simp add: timer_invariant_def r)
  from inv have 2: "idle_timer (run calls) = None \<or> idle_timer (run calls) = Some 30000"
    by (simp add: timer_invariant_def)
  have 3: "fst (change_stage (run calls) ''rest'' kw)"
    by (simp add: change_stage_fields v)
  from inv have 4: "idle_timer (snd (change_stage (run calls) ''rest'' kw)) = None"
    by (simp add: change_stage_fields v timer_invariant_def r)
  from inv have 5: "is_valid_stage new_stage \<and> new_stage \<noteq> ''rest'' \<longrightarrow>
        fst (change_stage (run calls) new_stage kw) \<and>
        idle_timer (snd (change_stage (run calls) new_stage kw)) = Some 30000"
    by (simp add: change_stage_fields timer_invariant_def r)
  from inv have 6: "idle_timer (run calls) \<noteq> None \<longrightarrow>
        current_stage (perform (run calls) TimerExpires) = ''rest'' \<and>
        idle_timer (perform (run calls) TimerExpires) = None"
    using v by (auto simp: on_idle_timeout_def go_to_rest_def change_stage_fields
          timer_invariant_def r split: if_splits)
  have 7: "idle_timer (snd (start c)) \<noteq> None \<longleftrightarrow> current_stage (snd (start c)) \<noteq> ''rest''"
    by (simp add: start_def reset_idle_timer_fields enter_stage_fields r)
  have 8: "idle_timer (on_user_activity c) \<noteq> None \<longleftrightarrow>
        current_stage (on_user_activity c) \<noteq> ''rest''"
    by (simp add: on_user_activity_def reset_idle_timer_fields r)
  have 9: "new_stage \<noteq> current_stage c \<and> is_valid_stage new_stage \<longrightarrow>
        (idle_timer (snd (change_stage c new_stage kw)) \<noteq> None \<longleftrightarrow>
         current_stage (snd (change_stage c new_stage kw)) \<noteq> ''rest'')"
    by (simp add: change_stage_fields r)
  show ?thesis by (intro conjI 1 2 3 4 5 6 7 8 9)
qed


theorem C9_idle_timer_witness:
  "Stop \<notin> set [Start, ChangeStage ''game_mode'' []]
   \<and> current_stage (run [Start, ChangeStage ''game_mode'' []]) = ''game_mode''
   \<and> idle_timer (run [Start, ChangeStage ''game_mode'' []]) = Some 30000
   \<and> idle_timer (snd (change_stage (run [Start, ChangeStage ''game_mode'' []]) ''rest'' [])) = None
   \<and> idle_timer (snd (change_stage (run [Start, ChangeStage ''game_mode'' []])
                         ''menu_detail'' [])) = Some 30000
   \<and> current_stage (perform (run [Start, ChangeStage ''game_mode'' []]) TimerExpires) = ''rest''
   \<and> idle_timer (perform (run [Start, ChangeStage ''game_mode'' []]) TimerExpires) = None"
proof -
  have h: "Stop \<notin> set [Start, ChangeStage ''game_mode'' []]" by simp
  have b: "current_stage (run [Start, ChangeStage ''game_mode'' []]) = ''game_mode''"
    by (simp add: stage_eval)
  have m: "is_valid_stage ''menu_detail'' \<and> ''menu_detail'' \<noteq> ''rest''"
    by (simp add: is_valid_stage_def stage_names)
  note t = C9_idle_timer_armed_iff_not_rest
    [OF h, of "[]" "''menu_detail''" StageController_init]
  from b have nr: "current_stage (run [Start, ChangeStage ''game_mode'' []]) \<noteq> ''rest''"
    by simp
  from t [THEN conjunct1] nr
  have armed: "idle_timer (run [Start, ChangeStage ''game_mode'' []]) \<noteq> None"
    by simp
  from t [THEN conjunct2, THEN conjunct1] armed
  have c: "idle_timer (run [Start, ChangeStage ''game_mode'' []]) = Some 30000"
    by simp
  have d: "idle_timer (snd (change_stage (run [Start, ChangeStage ''game_mode'' []])
                              ''rest'' [])) = None"
    by (rule t [THEN conjunct2, THEN conjunct2, THEN conjunct2, THEN conjunct1])
  have e: "idle_timer (snd (change_stage (run [Start, ChangeStage ''game_mode'' []])
                         ''menu_detail'' [])) = Some 30000"
    by (rule t [THEN conjunct2, THEN conjunct2, THEN conjunct2, THEN conjunct2, THEN conjunct1,
                rule_format, OF m, THEN conjunct2])
  note f = t [THEN conjunct2, THEN conjunct2, THEN conjunct2, THEN conjunct2, THEN conjunct2,
              THEN conjunct1, rule_format, OF armed]
  show ?thesis by (intro conjI h b c d e f [THEN conjunct1] f [THEN conjunct2])
qed


section \<open>Claims about interpolation\<close>

lemma upto_length: "length [0..steps] = nat (steps + 1)"
  by simp

lemma upto_nth: "0 \<le> steps \<Longrightarrow> i \<le> nat steps \<Longrightarrow> [0..steps] ! i = int i"
  using nth_upto [of 0 i steps] by simp

text \<open>
  The arithmetic of one waypoint at the two ends of the path: at \<open>t = 0\<close> the value is
  \<open>float(start)\<close>, at \<open>t = 1\<close> it is the rounded sum of \<open>start\<close> and the rounded
  difference \<open>end - start\<close>.
\<close>

lemma py_float_rounded: "valid_setpoint s \<Longrightarrow> round_binary64 (py_float s) = py_float s"
  by (cases s) (simp_all add: valid_setpoint_def round_binary64_idem)

lemma py_float_sub_rounded: "round_binary64 (py_float (py_sub e s)) = py_float (py_sub e s)"
  by (cases e; cases s) (simp_all add: round_binary64_idem)

lemma py_add_float: "py_add s (PyFloat y) = PyFloat (round_binary64 (py_float s + y))"
  by (cases s) simp_all

lemma interpolate_value_zero:
  "valid_setpoint s \<Longrightarrow> py_add s (py_mul (PyFloat 0) d) = PyFloat (py_float s)"
  by (simp add: py_add_float round_binary64_zero py_float_rounded)

lemma interpolate_value_one:
  "py_add s (py_mul (PyFloat 1) (py_sub e s)) =
     PyFloat (round_binary64 (py_float s + py_float (py_sub e s)))"
  by (simp add: py_add_float py_float_sub_rounded)

lemma py_float_sub_exact:
  assumes "py_float s = py_val s" "py_float e = py_val e"
  shows "py_float (py_sub e s) = round_binary64 (py_val e - py_val s)"
  using assms by (cases e; cases s) (simp_all add: round_binary64_idem)

lemma map_of_eq_None_keys: "map_of xs k = None \<longleftrightarrow> k \<notin> fst ` set xs"
  by (simp add: map_of_eq_None_iff)

lemma fp_round_dyadic:
  assumes "x = of_int k * 2 powi j" "2 powi e \<le> \<bar>x\<bar>" "\<bar>x\<bar> < 2 powi (e + 1)"
    "e - int p + 1 \<le> j" "emin - int p + 1 \<le> j"
  shows "fp_round p emin x = x"
proof -
  from floor_log2_unique [OF assms(2,3)] have "fp_exponent emin x = max e emin"
    by (simp add: fp_exponent_def)
  with assms(4,5) have "fp_exponent emin x - int p + 1 \<le> j" by simp
  with assms(1) show ?thesis by (rule fp_round_multiple)
qed

lemma round_tenth: 
  "round_binary64 (3602879701896397 / 36028797018963968) = 3602879701896397 / 36028797018963968"
proof -
  have "fp_round 53 (- 1022) (3602879701896397 / 36028797018963968) =
          3602879701896397 / 36028797018963968"
    by (rule fp_round_dyadic [where k = 3602879701896397 and j = "- 55" and e = "- 4"])
       (simp_all add: power_int_minus)
  then show ?thesis by (simp add: round_binary64_def)
qed

lemma round_tenth_minus_one:
  "round_binary64 (3602879701896397 / 36028797018963968 - 1) =
     - (8106479329266893 / 9007199254740992)"
proof -
  define x :: real where "x = 3602879701896397 / 36028797018963968 - 1"
  have a: "2 powi (- 1) \<le> \<bar>x\<bar>" "\<bar>x\<bar> < 2 powi (- 1 + 1)"
    by (simp_all add: x_def power_int_minus)
  have q: "(2::real) powi (- 1 - int 53 + 1) = 1 / 9007199254740992"
    by (simp add: power_int_minus)
  have r: "round_half_even (x / (1 / 9007199254740992)) = - 8106479329266893"
    by (rule round_half_even_eval) (simp add: x_def)
  have "fp_round 53 (- 1022) x =
          of_int (round_half_even (x / 2 powi (- 1 - int 53 + 1))) * 2 powi (- 1 - int 53 + 1)"
    by (rule fp_round_eval [OF a]) simp
  then have "fp_round 53 (- 1022) x =
          of_int (round_half_even (x / (1 / 9007199254740992))) * (1 / 9007199254740992)"
    unfolding q .
  then have "fp_round 53 (- 1022) x =
          of_int (- 8106479329266893) * (1 / 9007199254740992)"
    unfolding r .
  then show ?thesis by (simp add: round_binary64_def x_def)
qed

lemma round_tenth_minus_one_normal:
  "round_binary64 (- (32425917317067571 / 36028797018963968)) =
     - (8106479329266893 / 9007199254740992)"
  using round_tenth_minus_one by simp

lemma round_difference_fixed:
  "round_binary64 (- (8106479329266893 / 9007199254740992)) =
     - (8106479329266893 / 9007199254740992)"
  using round_binary64_idem [of "- (32425917317067571 / 36028797018963968)"]
  unfolding round_tenth_minus_one_normal .

lemma round_last_waypoint:
  "round_binary64 (900719925474099 / 9007199254740992) =
     900719925474099 / 9007199254740992"
proof -
  have "fp_round 53 (- 1022) (900719925474099 / 9007199254740992) =
          900719925474099 / 9007199254740992"
    by (rule fp_round_dyadic [where k = 900719925474099 and j = "- 53" and e = "- 4"])
       (simp_all add: power_int_minus)
  then show ?thesis by (simp add: round_binary64_def)
qed

text \<open>
  C3, as stated, fails in two ways. The waypoints are built from the joints of the start
  position only: from \<open>{pan: 0}\<close> to \<open>{lift: 1}\<close> in one step the path is
  \<open>[{pan: 0}, {pan: 0}]\<close>, and its last waypoint has no \<open>lift\<close>, which the end
  position sets to 1. And the waypoints are computed in floating point: from
  \<open>{pan: 1.0}\<close> to \<open>{pan: 0.1}\<close> in one step the last waypoint is
  \<open>1.0 + 1.0 * (0.1 - 1.0)\<close>, which is the float \<open>0.09999999999999998\<close> and not the
  float \<open>0.1\<close> (the two are written out below as the fractions they denote).
\<close>

theorem C3_interpolation_counterexample:
  "interpolate_positions [(''pan'', PyInt 0)] [(''lift'', PyInt 1)] 1 =
     Inr [[(''pan'', PyInt 0)], [(''pan'', PyInt 0)]]
   \<and> map_of [(''pan'', PyInt 0)] ''lift'' = None
   \<and> map_of [(''lift'', PyInt 1)] ''lift'' = Some (PyInt 1)
   \<and> interpolate_positions [(''pan'', PyFloat 1)]
         [(''pan'', PyFloat (3602879701896397 / 36028797018963968))] 1 =
       Inr [[(''pan'', PyFloat 1)], [(''pan'', PyFloat (900719925474099 / 9007199254740992))]]
   \<and> (900719925474099 / 9007199254740992 :: real) \<noteq> 3602879701896397 / 36028797018963968"
proof -
  have 1: "interpolate_positions [(''pan'', PyInt 0)] [(''lift'', PyInt 1)] 1 =
     Inr [[(''pan'', PyInt 0)], [(''pan'', PyInt 0)]]"
    by (simp add: interpolate_positions_nonzero interpolate_at_def upto.simps)
  have 4: "interpolate_positions [(''pan'', PyFloat 1)]
         [(''pan'', PyFloat (3602879701896397 / 36028797018963968))] 1 =
       Inr [[(''pan'', PyFloat 1)], [(''pan'', PyFloat (900719925474099 / 9007199254740992))]]"
    by (simp add: interpolate_positions_nonzero interpolate_at_def upto.simps
          round_binary64_zero round_binary64_one round_tenth_minus_one_normal
          round_difference_fixed round_last_waypoint)
  show ?thesis by (intro conjI 1 4) simp_all
qed

text \<open>
  C3, amended. For a step count \<open>N \<ge> 1\<close> the interpolation returns exactly
  \<open>N + 1\<close> waypoints. Every waypoint has exactly the joints of the start position, in
  its order. A joint \<open>J\<close> of the start position that the end position also has is, in
  waypoint \<open>i\<close>, the value of \<open>start[J] + (i/N) * (end[J] - start[J])\<close> in Python's
  arithmetic, every operation on floats rounded to the nearest binary64 value; a joint
  that the end position lacks stays at \<open>start[J]\<close>. Waypoint 0 holds \<open>float(start[J])\<close>
  for a shared joint, so it equals the start position when the \<open>int\<close> setpoints are
  exactly representable. In waypoint \<open>N\<close> a shared joint is the rounded sum of
  \<open>start[J]\<close> and the rounded difference \<open>end[J] - start[J]\<close>; it equals \<open>end[J]\<close>
  when that difference is computed without rounding (and the two setpoints are exactly
  representable), and may differ from it in the last places otherwise. The setpoints are
  taken finite and below \<open>2 ^ 1000\<close> in magnitude.
\<close>

theorem C3_interpolation_waypoints:
  assumes "1 \<le> steps"
    and "\<forall>(joint, s) \<in> set start_pos. valid_setpoint s"
    and "\<forall>(joint, e) \<in> set end_pos. valid_setpoint e"
  shows
  "\<exists>path. interpolate_positions start_pos end_pos steps = Inr path
     \<and> length path = nat steps + 1
     \<and> (\<forall>i \<le> nat steps.
          map fst (path ! i) = map fst start_pos \<and>
          (\<forall>joint s. map_of start_pos joint = Some s \<longrightarrow>
             map_of (path ! i) joint =
               Some (case map_of end_pos joint of
                       Some e \<Rightarrow>
                         py_add s (py_mul (PyFloat (round_binary64 (real i / real_of_int steps)))
                                          (py_sub e s))
                     | None \<Rightarrow> s)))
     \<and> (\<forall>joint s. map_of start_pos joint = Some s \<longrightarrow>
          (\<exists>w. map_of (path ! 0) joint = Some w \<and>
               py_val w = (case map_of end_pos joint of
                             Some e \<Rightarrow> py_float s | None \<Rightarrow> py_val s)))
     \<and> (\<forall>joint s e. map_of start_pos joint = Some s \<and> map_of end_pos joint = Some e \<longrightarrow>
          (\<exists>w. map_of (path ! nat steps) joint = Some w \<and>
               py_val w = round_binary64 (py_float s + py_float (py_sub e s)) \<and>
               (py_float s = py_val s \<and> py_float e = py_val e \<and>
                round_binary64 (py_val e - py_val s) = py_val e - py_val s \<longrightarrow>
                  py_val w = py_val e)))"
proof -
  define path where
    "path = map (\<lambda>step. interpolate_at start_pos end_pos
                           (round_binary64 (real_of_int step / real_of_int steps))) [0..steps]"
  from assms(1) have nz: "steps \<noteq> 0" and pos: "0 \<le> steps" by simp_all
  have p: "interpolate_positions start_pos end_pos steps = Inr path"
    unfolding path_def using nz by (rule interpolate_positions_nonzero)
  have len: "length path = nat steps + 1"
    using assms(1) by (simp add: path_def nat_add_distrib)
  have nth: "path ! i = interpolate_at start_pos end_pos
                          (round_binary64 (real i / real_of_int steps))"
    if "i \<le> nat steps" for i
  proof -
    from that assms(1) have "i < length [0..steps]" by simp
    then have "path ! i = interpolate_at start_pos end_pos
                 (round_binary64 (real_of_int ([0..steps] ! i) / real_of_int steps))"
      by (simp add: path_def)
    with upto_nth [OF pos that] show ?thesis by simp
  qed
  have each: "map fst (path ! i) = map fst start_pos \<and>
          (\<forall>joint s. map_of start_pos joint = Some s \<longrightarrow>
             map_of (path ! i) joint =
               Some (case map_of end_pos joint of
                       Some e \<Rightarrow>
                         py_add s (py_mul (PyFloat (round_binary64 (real i / real_of_int steps)))
                                          (py_sub e s))
                     | None \<Rightarrow> s))"
    if "i \<le> nat steps" for i
    by (simp add: nth [OF that] keys_interpolate_at map_of_interpolate_at split: option.splits)
  have first: "\<exists>w. map_of (path ! 0) joint = Some w \<and>
               py_val w = (case map_of end_pos joint of
                             Some e \<Rightarrow> py_float s | None \<Rightarrow> py_val s)"
    if s: "map_of start_pos joint = Some s" for joint s
  proof -
    from s have "(joint, s) \<in> set start_pos" by (rule map_of_SomeD)
    with assms(2) have v: "valid_setpoint s" by auto
    show ?thesis
      using s v
      by (simp add: nth [of 0] map_of_interpolate_at round_binary64_zero
            py_add_float py_float_rounded split: option.splits)
  qed
  have one: "round_binary64 (real (nat steps) / real_of_int steps) = 1"
    using assms(1) by (simp add: round_binary64_one)
  have last: "\<exists>w. map_of (path ! nat steps) joint = Some w \<and>
               py_val w = round_binary64 (py_float s + py_float (py_sub e s)) \<and>
               (py_float s = py_val s \<and> py_float e = py_val e \<and>
                round_binary64 (py_val e - py_val s) = py_val e - py_val s \<longrightarrow>
                  py_val w = py_val e)"
    if se: "map_of start_pos joint = Some s \<and> map_of end_pos joint = Some e" for joint s e
  proof -
    from se have "(joint, e) \<in> set end_pos" by (auto dest: map_of_SomeD)
    with assms(3) have v: "valid_setpoint e" by auto
    have w: "map_of (path ! nat steps) joint =
               Some (PyFloat (round_binary64 (py_float s + py_float (py_sub e s))))"
      using se by (simp add: nth [of "nat steps"] map_of_interpolate_at one
            py_add_float py_float_sub_rounded)
    have x: "round_binary64 (py_float s + py_float (py_sub e s)) = py_val e"
      if h: "py_float s = py_val s \<and> py_float e = py_val e \<and>
             round_binary64 (py_val e - py_val s) = py_val e - py_val s"
    proof -
      from h have "py_float (py_sub e s) = py_val e - py_val s"
        using py_float_sub_exact [of s e] by simp
      with h have "round_binary64 (py_float s + py_float (py_sub e s)) =
                   round_binary64 (py_float e)"
        by simp
      with py_float_rounded [OF v] h show ?thesis by simp
    qed
    from w x show ?thesis by simp
  qed
  show ?thesis
    using p len each first last by blast
qed

theorem C3_interpolation_witness:
  "(1::int) \<le> 2
   \<and> valid_setpoint (PyFloat 100) \<and> valid_setpoint (PyInt (- 900))
   \<and> valid_setpoint (PyInt 0) \<and> valid_setpoint (PyInt (- 1024))
   \<and> (\<exists>path. interpolate_positions [(''pan'', PyFloat 100), (''lift'', PyInt (- 900))]
                  [(''pan'', PyInt 0), (''lift'', PyInt (- 1024))] 2 = Inr path
          \<and> length path = 3
          \<and> map fst (path ! 1) = [''pan'', ''lift'']
          \<and> (\<exists>w. map_of (path ! 0) ''pan'' = Some w \<and> py_val w = 100)
          \<and> (\<exists>w. map_of (path ! 2) ''lift'' = Some w \<and> py_val w = - 1024))"
proof -
  have h: "(1::int) \<le> 2" by simp
  have r100: "round_binary64 100 = 100" using round_binary64_of_int [of 100] by simp
  have v1: "valid_setpoint (PyFloat 100)" by (simp add: valid_setpoint_def r100)
  have v2: "valid_setpoint (PyInt (- 900))" by (simp add: valid_setpoint_def)
  have v3: "valid_setpoint (PyInt 0)" by (simp add: valid_setpoint_def)
  have v4: "valid_setpoint (PyInt (- 1024))" by (simp add: valid_setpoint_def)
  have vs: "\<forall>(joint, s) \<in> set [(''pan'', PyFloat 100), (''lift'', PyInt (- 900))]. valid_setpoint s"
    using v1 v2 by simp
  have ve: "\<forall>(joint, e) \<in> set [(''pan'', PyInt 0), (''lift'', PyInt (- 1024))]. valid_setpoint e"
    using v3 v4 by simp
  from C3_interpolation_waypoints [OF h vs ve]
  obtain path where
    p: "interpolate_positions [(''pan'', PyFloat 100), (''lift'', PyInt (- 900))]
          [(''pan'', PyInt 0), (''lift'', PyInt (- 1024))] 2 = Inr path"
    and l: "length path = nat 2 + 1"
    and k: "\<forall>i \<le> nat 2. map fst (path ! i) =
              map fst [(''pan'', PyFloat 100), (''lift'', PyInt (- 900))] \<and>
          (\<forall>joint s. map_of [(''pan'', PyFloat 100), (''lift'', PyInt (- 900))] joint = Some s \<longrightarrow>
             map_of (path ! i) joint =
               Some (case map_of [(''pan'', PyInt 0), (''lift'', PyInt (- 1024))] joint of
                       Some e \<Rightarrow>
                         py_add s (py_mul (PyFloat (round_binary64 (real i / real_of_int 2)))
                                          (py_sub e s))
                     | None \<Rightarrow> s))"
    and f: "\<forall>joint s. map_of [(''pan'', PyFloat 100), (''lift'', PyInt (- 900))] joint = Some s \<longrightarrow>
          (\<exists>w. map_of (path ! 0) joint = Some w \<and>
               py_val w = (case map_of [(''pan'', PyInt 0), (''lift'', PyInt (- 1024))] joint of
                             Some e \<Rightarrow> py_float s | None \<Rightarrow> py_val s))"
    and e: "\<forall>joint s e. map_of [(''pan'', PyFloat 100), (''lift'', PyInt (- 900))] joint = Some s \<and>
              map_of [(''pan'', PyInt 0), (''lift'', PyInt (- 1024))] joint = Some e \<longrightarrow>
          (\<exists>w. map_of (path ! nat 2) joint = Some w \<and>
               py_val w = round_binary64 (py_float s + py_float (py_sub e s)) \<and>
               (py_float s = py_val s \<and> py_float e = py_val e \<and>
                round_binary64 (py_val e - py_val s) = py_val e - py_val s \<longrightarrow>
                  py_val w = py_val e))"
    by blast
  from l have l3: "length path = 3" by simp
  from k have k1: "map fst (path ! 1) = [''pan'', ''lift'']" by simp
  from f [rule_format, of "''pan''" "PyFloat 100"]
  have f0: "\<exists>w. map_of (path ! 0) ''pan'' = Some w \<and> py_val w = 100" by simp
  have r900: "round_binary64 (- 900) = - 900" using round_binary64_of_int [of "- 900"] by simp
  have r1024: "round_binary64 (- 1024) = - 1024" using round_binary64_of_int [of "- 1024"] by simp
  have r124: "round_binary64 (- 124) = - 124" using round_binary64_of_int [of "- 124"] by simp
  from e [rule_format, of "''lift''" "PyInt (- 900)" "PyInt (- 1024)"]
  have e2: "\<exists>w. map_of (path ! 2) ''lift'' = Some w \<and> py_val w = - 1024"
    by (simp add: r900 r1024 r124)
  show ?thesis by (intro conjI h v1 v2 v3 v4 exI [of _ path] p l3 k1 f0 e2)
qed




lemma move_to_position_lerobot_result:
  assumes "is_connected s" "\<not> is_moving s" "use_lerobot s" "lerobot_robot s = Some robot"
    "map_of (saved_positions s) position_name = Some target_positions"
    "check_position_safety target_positions (joint_limits s)"
    "lerobot_available s"
  shows "fst (move_to_position s position_name duration) =
         fst (move_lerobot robot target_positions duration)"
proof (cases "move_lerobot robot target_positions duration")
  case (Pair ok robot1)
  with assms show ?thesis
    by (simp add: move_to_position_def Let_def)
qed

lemma move_to_position_name_error:
  assumes "is_connected s" "\<not> is_moving s" "\<not> lerobot_available s"
    "map_of (saved_positions s) position_name = Some target_positions"
  shows "move_to_position s position_name duration =
           (False, s\<lparr>is_moving := False, target_position := None,
                      events := events s @ [ErrorOccurred NameError]\<rparr>)"
  using assms by (simp add: move_to_position_def)







section \<open>Claims about the safety clamp\<close>













































section \<open>Claims about the connection\<close>

text \<open>
  What the adapter's \<open>connect\<close> returns on the configuration that \<open>_connect_lerobot\<close>
  builds, by the state of the driver library and of the devices, and what
  \<open>_connect_lerobot\<close> makes of it.
\<close>

lemmas connect_defs = robot_connect_def connect_real_devices_def ManipulatorRobot_init_def
  create_projecto_follower_only_config_def connect_mock_devices_def Let_def

lemma robot_connect_driver_missing:
  assumes "\<not> driver_present world"
  shows "fst (robot_connect (ManipulatorRobot_init
                (create_projecto_follower_only_config False False) world))"
    and "mock_mode (snd (robot_connect (ManipulatorRobot_init
                (create_projecto_follower_only_config False False) world)))"
    and "robot_is_connected (snd (robot_connect (ManipulatorRobot_init
                (create_projecto_follower_only_config False False) world)))"
  using assms by (simp_all add: connect_defs)

lemma robot_connect_device_error:
  assumes "driver_present world" "\<not> bus_setup_ok world \<or> \<not> camera_setup_ok world"
  shows "\<not> fst (robot_connect (ManipulatorRobot_init
                (create_projecto_follower_only_config False False) world))"
    and "\<not> mock_mode (snd (robot_connect (ManipulatorRobot_init
                (create_projecto_follower_only_config False False) world)))"
    and "\<not> robot_is_connected (snd (robot_connect (ManipulatorRobot_init
                (create_projecto_follower_only_config False False) world)))"
  using assms by (auto simp: connect_defs)

lemma robot_connect_devices_ok:
  assumes "driver_present world" "bus_setup_ok world" "camera_setup_ok world"
  shows "fst (robot_connect (ManipulatorRobot_init
                (create_projecto_follower_only_config False False) world))"
    and "\<not> mock_mode (snd (robot_connect (ManipulatorRobot_init
                (create_projecto_follower_only_config False False) world)))"
    and "robot_is_connected (snd (robot_connect (ManipulatorRobot_init
                (create_projecto_follower_only_config False False) world)))"
  using assms by (simp_all add: connect_defs)

lemma connect_lerobot_fields:
  "fst (connect_lerobot world s) =
     fst (robot_connect (ManipulatorRobot_init
            (create_projecto_follower_only_config False False) world))"
  "lerobot_robot (snd (connect_lerobot world s)) =
     Some (snd (robot_connect (ManipulatorRobot_init
            (create_projecto_follower_only_config False False) world)))"
  "is_connected (snd (connect_lerobot world s)) =
     (fst (robot_connect (ManipulatorRobot_init
            (create_projecto_follower_only_config False False) world)) \<or> is_connected s)"
  "events (snd (connect_lerobot world s)) =
     (if fst (robot_connect (ManipulatorRobot_init
            (create_projecto_follower_only_config False False) world))
      then events s @ [StatusChanged ''connected''] else events s)"
  by (cases "robot_connect (ManipulatorRobot_init
            (create_projecto_follower_only_config False False) world)";
      simp add: connect_lerobot_def Let_def split: bool.splits)+

text \<open>
  Claim C5, as stated: if the real adapter fails to connect for any reason, \<open>connect()\<close>
  still reaches the connected state on the mock adapter. This does not hold for a failure
  other than the missing driver library. With the library installed and the motor bus
  failing to open, \<open>_connect_real_devices\<close> lets the exception through (its handler
  catches \<open>ImportError\<close> only), the adapter's \<open>connect\<close> catches it and returns
  \<open>False\<close>, and \<open>_connect_lerobot\<close> returns \<open>False\<close> from its \<open>else\<close> branch: the
  interface is not connected and the adapter is not in mock mode.
\<close>

theorem C5_connect_no_fallback_counterexample:
  "\<not> fst (connect transport_failure_world (EnhancedRobotInterface_init True []))
   \<and> \<not> is_connected (snd (connect transport_failure_world (EnhancedRobotInterface_init True [])))
   \<and> map_option is_mock
        (lerobot_robot (snd (connect transport_failure_world
                               (EnhancedRobotInterface_init True [])))) = Some False"
proof -
  have u: "use_lerobot (EnhancedRobotInterface_init True [])"
    and n: "\<not> is_connected (EnhancedRobotInterface_init True [])"
    by (simp_all add: EnhancedRobotInterface_init_def)
  have d: "driver_present transport_failure_world"
    and b: "\<not> bus_setup_ok transport_failure_world \<or> \<not> camera_setup_ok transport_failure_world"
    by (simp_all add: transport_failure_world_def)
  show ?thesis
    using u n robot_connect_device_error [OF d b]
    by (simp add: connect_def connect_lerobot_fields is_mock_def)
qed

text \<open>
  Claim C5, amended. With the integration in use: if the driver library is missing, the
  adapter switches to mock mode, \<open>connect()\<close> returns \<open>True\<close>, the interface is
  connected and \<open>is_mock()\<close> is true; if the library is present and setting up the motor
  bus or the cameras fails, \<open>connect()\<close> returns \<open>False\<close>, the connected flag and the
  events are as before the call, and the adapter is neither connected nor in mock mode; if
  the library is present and the devices come up, \<open>connect()\<close> returns \<open>True\<close> on the real
  adapter. Without the integration, \<open>connect()\<close> takes the simulated basic mode, which
  always succeeds and creates no adapter.
\<close>

theorem C5_connect_fallback:
  "(use_lerobot s \<and> \<not> driver_present world \<longrightarrow>
      fst (connect world s) \<and> is_connected (snd (connect world s)) \<and>
      map_option is_mock (lerobot_robot (snd (connect world s))) = Some True \<and>
      map_option robot_is_connected (lerobot_robot (snd (connect world s))) = Some True)
   \<and> (use_lerobot s \<and> driver_present world \<and>
        (\<not> bus_setup_ok world \<or> \<not> camera_setup_ok world) \<longrightarrow>
        \<not> fst (connect world s) \<and>
        is_connected (snd (connect world s)) = is_connected s \<and>
        events (snd (connect world s)) = events s \<and>
        map_option is_mock (lerobot_robot (snd (connect world s))) = Some False \<and>
        map_option robot_is_connected (lerobot_robot (snd (connect world s))) = Some False)
   \<and> (use_lerobot s \<and> driver_present world \<and> bus_setup_ok world \<and> camera_setup_ok world \<longrightarrow>
        fst (connect world s) \<and> is_connected (snd (connect world s)) \<and>
        map_option is_mock (lerobot_robot (snd (connect world s))) = Some False)
   \<and> (\<not> use_lerobot s \<longrightarrow>
        fst (connect world s) \<and> is_connected (snd (connect world s)) \<and>
        lerobot_robot (snd (connect world s)) = lerobot_robot s)"
proof (intro conjI impI)
  assume a: "use_lerobot s \<and> \<not> driver_present world"
  then have m: "\<not> driver_present world" and u: "use_lerobot s" by simp_all
  note r = robot_connect_driver_missing [OF m]
  show "fst (connect world s)"
    using u r by (simp add: connect_def connect_lerobot_fields)
  show "is_connected (snd (connect world s))"
    using u r by (simp add: connect_def connect_lerobot_fields)
  show "map_option is_mock (lerobot_robot (snd (connect world s))) = Some True"
    using u r by (simp add: connect_def connect_lerobot_fields is_mock_def)
  show "map_option robot_is_connected (lerobot_robot (snd (connect world s))) = Some True"
    using u r by (simp add: connect_def connect_lerobot_fields)
next
  assume a: "use_lerobot s \<and> driver_present world \<and>
        (\<not> bus_setup_ok world \<or> \<not> camera_setup_ok world)"
  then have d: "driver_present world"
    and b: "\<not> bus_setup_ok world \<or> \<not> camera_setup_ok world" and u: "use_lerobot s"
    by simp_all
  note r = robot_connect_device_error [OF d b]
  show "\<not> fst (connect world s)"
    using u r by (simp add: connect_def connect_lerobot_fields)
  show "is_connected (snd (connect world s)) = is_connected s"
    using u r by (simp add: connect_def connect_lerobot_fields)
  show "events (snd (connect world s)) = events s"
    using u r by (simp add: connect_def connect_lerobot_fields)
  show "map_option is_mock (lerobot_robot (snd (connect world s))) = Some False"
    using u r by (simp add: connect_def connect_lerobot_fields is_mock_def)
  show "map_option robot_is_connected (lerobot_robot (snd (connect world s))) = Some False"
    using u r by (simp add: connect_def connect_lerobot_fields)
next
  assume a: "use_lerobot s \<and> driver_present world \<and> bus_setup_ok world \<and> camera_setup_ok world"
  then have d: "driver_present world" and b: "bus_setup_ok world" and c: "camera_setup_ok world"
    and u: "use_lerobot s"
    by simp_all
  note r = robot_connect_devices_ok [OF d b c]
  show "fst (connect world s)"
    using u r by (simp add: connect_def connect_lerobot_fields)
  show "is_connected (snd (connect world s))"
    using u r by (simp add: connect_def connect_lerobot_fields)
  show "map_option is_mock (lerobot_robot (snd (connect world s))) = Some False"
    using u r by (simp add: connect_def connect_lerobot_fields is_mock_def)
next
  assume u: "\<not> use_lerobot s"
  show "fst (connect world s)" using u by (simp add: connect_def connect_basic_def)
  show "is_connected (snd (connect world s))" using u by (simp add: connect_def connect_basic_def)
  show "lerobot_robot (snd (connect world s)) = lerobot_robot s"
    using u by (simp add: connect_def connect_basic_def)
qed

theorem C5_connect_fallback_witness:
  "use_lerobot (EnhancedRobotInterface_init True [])
   \<and> \<not> driver_present example_world
   \<and> fst (connect example_world (EnhancedRobotInterface_init True []))
   \<and> is_connected (snd (connect example_world (EnhancedRobotInterface_init True [])))
   \<and> map_option is_mock
        (lerobot_robot (snd (connect example_world (EnhancedRobotInterface_init True [])))) =
       Some True
   \<and> driver_present transport_failure_world
   \<and> \<not> bus_setup_ok transport_failure_world
   \<and> \<not> fst (connect transport_failure_world (EnhancedRobotInterface_init True []))
   \<and> \<not> use_lerobot (EnhancedRobotInterface_init False [])
   \<and> fst (connect example_world (EnhancedRobotInterface_init False []))"
proof -
  have u: "use_lerobot (EnhancedRobotInterface_init True [])"
    by (simp add: EnhancedRobotInterface_init_def)
  have nu: "\<not> use_lerobot (EnhancedRobotInterface_init False [])"
    by (simp add: EnhancedRobotInterface_init_def)
  have m: "\<not> driver_present example_world" by (simp add: example_world_def)
  have d: "driver_present transport_failure_world"
    and b: "\<not> bus_setup_ok transport_failure_world"
    by (simp_all add: transport_failure_world_def)
  note t1 = C5_connect_fallback [of "EnhancedRobotInterface_init True []" example_world,
              THEN conjunct1, THEN mp, OF conjI [OF u m]]
  from d b have db: "use_lerobot (EnhancedRobotInterface_init True []) \<and>
      driver_present transport_failure_world \<and>
      (\<not> bus_setup_ok transport_failure_world \<or> \<not> camera_setup_ok transport_failure_world)"
    using u by simp
  note t2 = C5_connect_fallback [of "EnhancedRobotInterface_init True []" transport_failure_world,
              THEN conjunct2, THEN conjunct1, THEN mp, OF db]
  note t3 = C5_connect_fallback [of "EnhancedRobotInterface_init False []" example_world,
              THEN conjunct2, THEN conjunct2, THEN conjunct2, THEN mp, OF nu]
  show ?thesis
    by (intro conjI u m t1 [THEN conjunct1] t1 [THEN conjunct2, THEN conjunct1]
          t1 [THEN conjunct2, THEN conjunct2, THEN conjunct1] d b t2 [THEN conjunct1] nu
          t3 [THEN conjunct1])
qed


section \<open>Claims about the failures of a movement\<close>

text \<open>
  The returns of \<open>move_to_position\<close>: a rejection gives back the state it got; an
  accepted call ends with the flag and the target cleared and with the events of a
  movement appended, \<open>position_reached\<close> among them exactly on success.
\<close>

lemma move_to_position_rejected:
  assumes "\<not> is_connected s \<or> is_moving s \<or> map_of (saved_positions s) position_name = None"
  shows "move_to_position s position_name duration = (False, s)"
  using assms by (auto simp: move_to_position_def split: option.splits)

lemma move_to_position_unsafe:
  assumes "is_connected s" "\<not> is_moving s" "lerobot_available s"
    "map_of (saved_positions s) position_name = Some target_positions"
    "\<not> check_position_safety target_positions (joint_limits s)"
  shows "move_to_position s position_name duration = (False, s)"
  using assms by (simp add: move_to_position_def)

lemma move_to_position_accepted_fields:
  assumes "is_connected s" "\<not> is_moving s" "lerobot_available s"
    "map_of (saved_positions s) position_name = Some target_positions"
    "check_position_safety target_positions (joint_limits s)"
  shows "\<not> is_moving (snd (move_to_position s position_name duration))"
    and "target_position (snd (move_to_position s position_name duration)) = None"
    and "current_position (snd (move_to_position s position_name duration)) =
           (if fst (move_to_position s position_name duration) then position_name
            else current_position s)"
    and "events (snd (move_to_position s position_name duration)) =
           events s @
           (if fst (move_to_position s position_name duration)
            then [MovementStarted position_name, PositionReached position_name,
                  MovementCompleted position_name]
            else [MovementStarted position_name, MovementCompleted position_name])"
  using assms
  by (auto simp: move_to_position_def Let_def move_basic_def split: option.splits prod.splits)

lemma write_failure_interface_fields:
  "is_connected write_failure_interface"
  "\<not> is_moving write_failure_interface"
  "use_lerobot write_failure_interface"
  "events write_failure_interface = [StatusChanged ''connected'']"
  "saved_positions write_failure_interface = create_default_positions"
  "joint_limits write_failure_interface = get_so101_joint_limits"
  "lerobot_available write_failure_interface"
  by (simp_all add: write_failure_interface_def connect_def connect_lerobot_def
        EnhancedRobotInterface_init_def write_failure_world_def connect_defs joint_limits_def)

lemma write_failure_interface_robot:
  "lerobot_robot write_failure_interface = Some write_failure_robot"
  by (simp add: write_failure_interface_def connect_def connect_lerobot_fields
        EnhancedRobotInterface_init_def write_failure_robot_def)

lemma write_failure_robot_fields:
  "robot_is_connected write_failure_robot"
  "\<not> mock_mode write_failure_robot"
  "follower_arms write_failure_robot = [''main'']"
  "max_relative_target (config write_failure_robot) = None"
  "hw write_failure_robot = write_failure_world"
  "bus_calls write_failure_robot = 0"
  by (simp_all add: write_failure_robot_def write_failure_world_def connect_defs)

lemma write_failure_direct_move:
  "\<not> fst (move_lerobot write_failure_robot target_positions None)"
  by (cases "numbers_to_tensors target_positions")
     (simp_all add: move_lerobot_def robot_move_to_position_def write_position_def
        write_dispatch_def write_real_position_def write_failure_robot_fields Let_def
        write_failure_world_def)

lemma write_failure_rest_preset:
  "map_of (saved_positions write_failure_interface) ''rest'' =
     Some [(''shoulder_pan'', PyInt 0), (''shoulder_lift'', PyInt (-1024)), (''elbow_flex'', PyInt 1024),
           (''wrist_flex'', PyInt 0), (''wrist_roll'', PyInt 0)]"
  by (simp add: write_failure_interface_fields create_default_positions_def)

lemma rest_preset_safe:
  "check_position_safety
     [(''shoulder_pan'', PyInt 0), (''shoulder_lift'', PyInt (-1024)), (''elbow_flex'', PyInt 1024),
      (''wrist_flex'', PyInt 0), (''wrist_roll'', PyInt 0)] get_so101_joint_limits"
  by (simp add: get_so101_joint_limits_def)

lemma write_failure_rest_safe:
  "check_position_safety
     [(''shoulder_pan'', PyInt 0), (''shoulder_lift'', PyInt (-1024)), (''elbow_flex'', PyInt 1024),
      (''wrist_flex'', PyInt 0), (''wrist_roll'', PyInt 0)] (joint_limits write_failure_interface)"
  using rest_preset_safe by (simp add: write_failure_interface_fields)

lemma write_failure_move_fails:
  "\<not> fst (move_to_position write_failure_interface ''rest'' None)"
  using move_to_position_lerobot_result
          [OF write_failure_interface_fields(1,2,3) write_failure_interface_robot
              write_failure_rest_preset write_failure_rest_safe
              write_failure_interface_fields(7), of None]
        write_failure_direct_move
  by simp

lemma example_interface_no_preset:
  "map_of (saved_positions example_interface) ''nowhere'' = None"
  "events example_interface = []"
  by (simp_all add: example_interface_def EnhancedRobotInterface_init_def
        create_default_positions_def)

lemma example_limits_interface_fields:
  "is_connected example_limits_interface"
  "\<not> is_moving example_limits_interface"
  "lerobot_available example_limits_interface"
  "map_of (saved_positions example_limits_interface) ''high'' =
     Some [(''shoulder_pan'', PyInt 0), (''gripper'', PyInt 2000)]"
  "\<not> check_position_safety [(''shoulder_pan'', PyInt 0), (''gripper'', PyInt 2000)]
       (joint_limits example_limits_interface)"
  by (simp_all add: example_limits_interface_def EnhancedRobotInterface_init_def
        joint_limits_def get_so101_joint_limits_def)

lemma basic_interface_fields:
  "is_connected basic_interface"
  "\<not> is_moving basic_interface"
  "\<not> lerobot_available basic_interface"
  "map_of (saved_positions basic_interface) ''rest'' =
     Some [(''shoulder_pan'', PyInt 0), (''shoulder_lift'', PyInt (-1024)), (''elbow_flex'', PyInt 1024),
           (''wrist_flex'', PyInt 0), (''wrist_roll'', PyInt 0)]"
  "events basic_interface = [StatusChanged ''connected'']"
  by (simp_all add: basic_interface_def connect_def connect_basic_def
        EnhancedRobotInterface_init_def)

text \<open>
  Claim C6, as stated: every failing \<open>move_to_position\<close> call delivers an event, and a
  failed write during the movement emits an error event. Neither holds. A call for a preset
  that is not in the table returns \<open>False\<close> after a \<open>print\<close> and emits nothing. On an
  adapter whose bus refuses the write, \<open>_write_real_position\<close> catches the exception and
  returns \<open>False\<close>; the direct move returns \<open>False\<close>, the flag is cleared, and the events
  of the call are \<open>movement_started\<close> and \<open>movement_completed\<close>: no \<open>error_occurred\<close> and
  no \<open>status_changed\<close>.
\<close>

theorem C6_failure_without_event_counterexample:
  "\<not> fst (move_to_position example_interface ''nowhere'' None)
   \<and> events (snd (move_to_position example_interface ''nowhere'' None)) = []
   \<and> \<not> fst (move_to_position write_failure_interface ''rest'' None)
   \<and> \<not> is_moving (snd (move_to_position write_failure_interface ''rest'' None))
   \<and> events (snd (move_to_position write_failure_interface ''rest'' None)) =
       [StatusChanged ''connected'', MovementStarted ''rest'', MovementCompleted ''rest'']"
proof -
  have r: "move_to_position example_interface ''nowhere'' None = (False, example_interface)"
    by (rule move_to_position_rejected) (simp add: example_interface_no_preset)
  note f = move_to_position_accepted_fields
             [OF write_failure_interface_fields(1,2,7) write_failure_rest_preset
                 write_failure_rest_safe, of None]
  have 1: "\<not> fst (move_to_position example_interface ''nowhere'' None)"
    using r by simp
  have 2: "events (snd (move_to_position example_interface ''nowhere'' None)) = []"
    using r by (simp add: example_interface_no_preset)
  have 5: "events (snd (move_to_position write_failure_interface ''rest'' None)) =
       [StatusChanged ''connected'', MovementStarted ''rest'', MovementCompleted ''rest'']"
    using f(4) write_failure_move_fails by (simp add: write_failure_interface_fields)
  show ?thesis
    by (intro conjI 1 2 write_failure_move_fails f(1) 5)
qed

text \<open>
  Claim C6, amended. A \<open>move_to_position\<close> call that is rejected because the interface
  is not connected, a movement is in flight or the preset is not in the table returns
  \<open>False\<close> and leaves the state as it was, so it emits no event; so does, where the
  integration was imported, a call whose preset fails the limit check. A call in which an
  exception reaches the handler of \<open>move_to_position\<close> returns \<open>False\<close>, has the moving
  flag and the target cleared and emits \<open>error_occurred\<close> and nothing else; the one
  exception that gets there is the \<open>NameError\<close> of the safety check where the
  integration was not imported. A call that passes the four checks and whose move then
  fails returns \<open>False\<close> with the moving flag and the target cleared, the current
  position name unchanged, and exactly \<open>movement_started\<close> followed by
  \<open>movement_completed\<close> emitted: no \<open>error_occurred\<close>.
\<close>

theorem C6_failing_move_events:
  "(\<not> is_connected s \<or> is_moving s \<or> map_of (saved_positions s) position_name = None
    \<longrightarrow> move_to_position s position_name duration = (False, s))
   \<and> (is_connected s \<and> \<not> is_moving s \<and> lerobot_available s \<and>
       map_of (saved_positions s) position_name = Some target_positions \<and>
       \<not> check_position_safety target_positions (joint_limits s)
       \<longrightarrow> move_to_position s position_name duration = (False, s))
   \<and> (is_connected s \<and> \<not> is_moving s \<and> \<not> lerobot_available s \<and>
       map_of (saved_positions s) position_name = Some target_positions
       \<longrightarrow> move_to_position s position_name duration =
             (False, s\<lparr>is_moving := False, target_position := None,
                        events := events s @ [ErrorOccurred NameError]\<rparr>))
   \<and> (is_connected s \<and> \<not> is_moving s \<and> lerobot_available s \<and>
       map_of (saved_positions s) position_name = Some target_positions \<and>
       check_position_safety target_positions (joint_limits s) \<and>
       \<not> fst (move_to_position s position_name duration)
       \<longrightarrow> \<not> is_moving (snd (move_to_position s position_name duration)) \<and>
           target_position (snd (move_to_position s position_name duration)) = None \<and>
           current_position (snd (move_to_position s position_name duration)) =
             current_position s \<and>
           events (snd (move_to_position s position_name duration)) =
             events s @ [MovementStarted position_name, MovementCompleted position_name])"
proof (intro conjI impI)
  assume "\<not> is_connected s \<or> is_moving s \<or> map_of (saved_positions s) position_name = None"
  then show "move_to_position s position_name duration = (False, s)"
    by (rule move_to_position_rejected)
next
  assume "is_connected s \<and> \<not> is_moving s \<and> lerobot_available s \<and>
       map_of (saved_positions s) position_name = Some target_positions \<and>
       \<not> check_position_safety target_positions (joint_limits s)"
  then show "move_to_position s position_name duration = (False, s)"
    using move_to_position_unsafe [of s position_name target_positions duration] by simp
next
  assume "is_connected s \<and> \<not> is_moving s \<and> \<not> lerobot_available s \<and>
       map_of (saved_positions s) position_name = Some target_positions"
  then show "move_to_position s position_name duration =
             (False, s\<lparr>is_moving := False, target_position := None,
                        events := events s @ [ErrorOccurred NameError]\<rparr>)"
    using move_to_position_name_error [of s position_name target_positions duration] by simp
next
  assume a: "is_connected s \<and> \<not> is_moving s \<and> lerobot_available s \<and>
       map_of (saved_positions s) position_name = Some target_positions \<and>
       check_position_safety target_positions (joint_limits s) \<and>
       \<not> fst (move_to_position s position_name duration)"
  then have c: "is_connected s" and m: "\<not> is_moving s" and v: "lerobot_available s"
    and p: "map_of (saved_positions s) position_name = Some target_positions"
    and k: "check_position_safety target_positions (joint_limits s)"
    and n: "\<not> fst (move_to_position s position_name duration)"
    by simp_all
  note f = move_to_position_accepted_fields [OF c m v p k, of duration]
  show "\<not> is_moving (snd (move_to_position s position_name duration))" by (rule f(1))
  show "target_position (snd (move_to_position s position_name duration)) = None"
    by (rule f(2))
  show "current_position (snd (move_to_position s position_name duration)) =
          current_position s"
    using f(3) n by simp
  show "events (snd (move_to_position s position_name duration)) =
          events s @ [MovementStarted position_name, MovementCompleted position_name]"
    using f(4) n by simp
qed

theorem C6_failing_move_events_witness:
  "map_of (saved_positions example_interface) ''nowhere'' = None
   \<and> move_to_position example_interface ''nowhere'' None = (False, example_interface)
   \<and> \<not> check_position_safety [(''shoulder_pan'', PyInt 0), (''gripper'', PyInt 2000)]
         (joint_limits example_limits_interface)
   \<and> move_to_position example_limits_interface ''high'' None =
       (False, example_limits_interface)
   \<and> \<not> lerobot_available basic_interface
   \<and> move_to_position basic_interface ''rest'' None =
       (False, basic_interface\<lparr>is_moving := False, target_position := None,
                 events := events basic_interface @ [ErrorOccurred NameError]\<rparr>)
   \<and> \<not> fst (move_to_position write_failure_interface ''rest'' None)
   \<and> \<not> is_moving (snd (move_to_position write_failure_interface ''rest'' None))
   \<and> target_position (snd (move_to_position write_failure_interface ''rest'' None)) = None
   \<and> events (snd (move_to_position write_failure_interface ''rest'' None)) =
       events write_failure_interface @ [MovementStarted ''rest'', MovementCompleted ''rest'']"
proof -
  have h1: "\<not> is_connected example_interface \<or> is_moving example_interface \<or>
     map_of (saved_positions example_interface) ''nowhere'' = None"
    by (simp add: example_interface_no_preset)
  note t1 = C6_failing_move_events [of example_interface "''nowhere''" None,
              THEN conjunct1, THEN mp, OF h1]
  have h2: "is_connected example_limits_interface \<and> \<not> is_moving example_limits_interface \<and>
       lerobot_available example_limits_interface \<and>
       map_of (saved_positions example_limits_interface) ''high'' =
         Some [(''shoulder_pan'', PyInt 0), (''gripper'', PyInt 2000)] \<and>
       \<not> check_position_safety [(''shoulder_pan'', PyInt 0), (''gripper'', PyInt 2000)]
           (joint_limits example_limits_interface)"
    by (intro conjI example_limits_interface_fields)
  note t2 = C6_failing_move_events [of example_limits_interface "''high''" None,
              THEN conjunct2, THEN conjunct1, THEN mp, OF h2]
  have h3: "is_connected basic_interface \<and> \<not> is_moving basic_interface \<and>
       \<not> lerobot_available basic_interface \<and>
       map_of (saved_positions basic_interface) ''rest'' =
         Some [(''shoulder_pan'', PyInt 0), (''shoulder_lift'', PyInt (-1024)), (''elbow_flex'', PyInt 1024),
               (''wrist_flex'', PyInt 0), (''wrist_roll'', PyInt 0)]"
    by (intro conjI basic_interface_fields(1-4))
  note t3 = C6_failing_move_events [of basic_interface "''rest''" None,
              THEN conjunct2, THEN conjunct2, THEN conjunct1, THEN mp, OF h3]
  have h4: "is_connected write_failure_interface \<and> \<not> is_moving write_failure_interface \<and>
       lerobot_available write_failure_interface \<and>
       map_of (saved_positions write_failure_interface) ''rest'' =
         Some [(''shoulder_pan'', PyInt 0), (''shoulder_lift'', PyInt (-1024)), (''elbow_flex'', PyInt 1024),
               (''wrist_flex'', PyInt 0), (''wrist_roll'', PyInt 0)] \<and>
       check_position_safety
         [(''shoulder_pan'', PyInt 0), (''shoulder_lift'', PyInt (-1024)), (''elbow_flex'', PyInt 1024),
          (''wrist_flex'', PyInt 0), (''wrist_roll'', PyInt 0)] (joint_limits write_failure_interface) \<and>
       \<not> fst (move_to_position write_failure_interface ''rest'' None)"
    by (intro conjI write_failure_interface_fields(1,2,7) write_failure_rest_preset
          write_failure_rest_safe write_failure_move_fails)
  note t4 = C6_failing_move_events [of write_failure_interface "''rest''" None,
              THEN conjunct2, THEN conjunct2, THEN conjunct2, THEN mp, OF h4]
  show ?thesis
    by (intro conjI example_interface_no_preset(1) t1 example_limits_interface_fields(5) t2
          basic_interface_fields(3) t3 write_failure_move_fails t4 [THEN conjunct1]
          t4 [THEN conjunct2, THEN conjunct1]
          t4 [THEN conjunct2, THEN conjunct2, THEN conjunct2])
qed

end
